theory Spec2Isabelle
  imports Complex_Main "HOL-Library.Sublist" "HOL-Library.AList"
begin

section \<open>Python strings\<close>

text \<open>
  A Python \<open>str\<close> is modelled as a \<open>string\<close>; a \<open>char\<close> stands for a code point below 256.
  \<open>str.isspace\<close>, \<open>str.isdigit\<close> and \<open>str.lower\<close> are given on that range as Python
  defines them there. \<open>x in y\<close> on strings is \<open>sublist x y\<close>, \<open>y.endswith(x)\<close> is
  \<open>suffix x y\<close>.
\<close>

definition whitespace :: "char list" where
  "whitespace = [CHR 0x09, CHR 0x0A, CHR 0x0B, CHR 0x0C, CHR 0x0D, CHR 0x1C, CHR 0x1D,
     CHR 0x1E, CHR 0x1F, CHR 0x20, CHR 0x85, CHR 0xA0]"

definition is_space :: "char \<Rightarrow> bool" where
  "is_space c = (c \<in> set whitespace)"

definition is_digit :: "char \<Rightarrow> bool" where
  "is_digit c = (c \<in> set (''0123456789'' @ [CHR 0xB2, CHR 0xB3, CHR 0xB9]))"

text \<open>\<open>s.isspace()\<close>: every character is whitespace and there is at least one.\<close>

definition isspace :: "string \<Rightarrow> bool" where
  "isspace s = (s \<noteq> [] \<and> list_all is_space s)"

definition lower_char :: "char \<Rightarrow> char" where
  "lower_char c = (let n = (of_char c :: nat) in
     if (65 \<le> n \<and> n \<le> 90) \<or> (192 \<le> n \<and> n \<le> 222 \<and> n \<noteq> 215) then char_of (n + 32) else c)"

definition lower :: "string \<Rightarrow> string" where
  "lower s = map lower_char s"

definition lstrip :: "string \<Rightarrow> string" where
  "lstrip s = dropWhile is_space s"

definition rstrip :: "string \<Rightarrow> string" where
  "rstrip s = rev (dropWhile is_space (rev s))"

definition strip :: "string \<Rightarrow> string" where
  "strip s = rstrip (lstrip s)"

text \<open>\<open>s.lstrip(chars)\<close>: drop leading characters that occur in \<open>chars\<close>.\<close>

definition lstrip_chars :: "string \<Rightarrow> string \<Rightarrow> string" where
  "lstrip_chars chars s = dropWhile (\<lambda>c. c \<in> set chars) s"

text \<open>\<open>s.split()\<close>: the maximal runs of non-whitespace characters.\<close>

fun split_ws_aux :: "string \<Rightarrow> string \<Rightarrow> string list" where
  "split_ws_aux cur [] = (if cur = [] then [] else [rev cur])"
| "split_ws_aux cur (c # cs) =
     (if is_space c then (if cur = [] then split_ws_aux [] cs else rev cur # split_ws_aux [] cs)
      else split_ws_aux (c # cur) cs)"

definition split_ws :: "string \<Rightarrow> string list" where
  "split_ws s = split_ws_aux [] s"

text \<open>
  \<open>s.split(sep)\<close> for a non-empty separator: cut at each occurrence of \<open>sep\<close>, scanning from
  the left; the result has one more element than there are cuts. (Python raises ValueError on
  an empty separator; the source only splits on \<open>'\n\n'\<close>, \<open>'\n'\<close> and \<open>'.'\<close>.)
\<close>

function split_aux :: "string \<Rightarrow> string \<Rightarrow> string \<Rightarrow> string list" where
  "split_aux sep cur [] = [rev cur]"
| "split_aux sep cur (c # cs) =
     (if sep \<noteq> [] \<and> prefix sep (c # cs)
      then rev cur # split_aux sep [] (drop (length sep) (c # cs))
      else split_aux sep (c # cur) cs)"
  by pat_completeness auto
termination
  by (relation "measure (\<lambda>(sep, cur, s). length s)") auto

definition split :: "string \<Rightarrow> string \<Rightarrow> string list" where
  "split sep s = split_aux sep [] s"

text \<open>
  \<open>s.replace(old, new)\<close> for a non-empty \<open>old\<close>: every occurrence, scanning from the left.
  The source only replaces \<open>'*'\<close>, \<open>'-'\<close> and \<open>f"{i+1}."\<close>.
\<close>

function replace :: "string \<Rightarrow> string \<Rightarrow> string \<Rightarrow> string" where
  "replace old new [] = []"
| "replace old new (c # cs) =
     (if old \<noteq> [] \<and> prefix old (c # cs)
      then new @ replace old new (drop (length old) (c # cs))
      else c # replace old new cs)"
  by pat_completeness auto
termination
  by (relation "measure (\<lambda>(old, new, s). length s)") auto

text \<open>\<open>sep.join(xs)\<close>.\<close>

fun join :: "string \<Rightarrow> string list \<Rightarrow> string" where
  "join sep [] = []"
| "join sep [x] = x"
| "join sep (x # y # ys) = x @ sep @ join sep (y # ys)"

text \<open>\<open>str(n)\<close> for a natural number: its decimal digits.\<close>

definition digit_char :: "nat \<Rightarrow> char" where
  "digit_char d = ''0123456789'' ! (d mod 10)"

function str_nat :: "nat \<Rightarrow> string" where
  "str_nat n = (if n < 10 then [digit_char n] else str_nat (n div 10) @ [digit_char (n mod 10)])"
  by pat_completeness auto
termination
  by (relation "measure id") auto

declare str_nat.simps [simp del]

definition str_int :: "int \<Rightarrow> string" where
  "str_int i = (if i < 0 then CHR ''-'' # str_nat (nat (- i)) else str_nat (nat i))"

section \<open>Python values, exceptions and the outside world\<close>

text \<open>
  The values that \<open>json.loads\<close> returns and \<open>json.dumps\<close> accepts. A \<open>dict\<close> is an
  association list in insertion order; \<open>d[k] = v\<close> is \<open>AList.update\<close>, which replaces the value
  of a present key in place and appends an absent one. A float is the rational it denotes, or
  one of the three special values that \<open>json.loads\<close> also produces.
\<close>

datatype pyfloat = Fin rat | PosInf | NegInf | NaN

datatype json =
    JNull
  | JBool bool
  | JInt int
  | JFloat pyfloat
  | JStr string
  | JList "json list"
  | JDict "(string \<times> json) list"

text \<open>The exceptions the code can meet; the argument is \<open>str(e)\<close>.\<close>

datatype exn =
    ValueError string
  | JSONDecodeError string
  | KeyError string
  | IndexError string
  | TypeError string
  | AttributeError string
  | OverflowError string
  | OSError string
  | RequestException string

fun str_exn :: "exn \<Rightarrow> string" where
  "str_exn (ValueError m) = m"
| "str_exn (JSONDecodeError m) = m"
| "str_exn (KeyError m) = m"
| "str_exn (IndexError m) = m"
| "str_exn (TypeError m) = m"
| "str_exn (AttributeError m) = m"
| "str_exn (OverflowError m) = m"
| "str_exn (OSError m) = m"
| "str_exn (RequestException m) = m"

text \<open>\<open>bool(x)\<close>, as \<open>not x\<close> and \<open>if x\<close> use it.\<close>

fun truthy :: "json \<Rightarrow> bool" where
  "truthy JNull = False"
| "truthy (JBool b) = b"
| "truthy (JInt i) = (i \<noteq> 0)"
| "truthy (JFloat f) = (f \<noteq> Fin 0)"
| "truthy (JStr s) = (s \<noteq> [])"
| "truthy (JList xs) = (xs \<noteq> [])"
| "truthy (JDict d) = (d \<noteq> [])"

definition quoted :: "string \<Rightarrow> string" where
  "quoted k = [CHR 0x27] @ k @ [CHR 0x27]"

text \<open>\<open>x[k]\<close> for a string key \<open>k\<close>.\<close>

fun getitem :: "json \<Rightarrow> string \<Rightarrow> exn + json" where
  "getitem (JDict d) k = (case map_of d k of Some v \<Rightarrow> Inr v | None \<Rightarrow> Inl (KeyError (quoted k)))"
| "getitem (JList xs) k = Inl (TypeError ''list indices must be integers or slices, not str'')"
| "getitem (JStr s) k = Inl (TypeError ''string indices must be integers'')"
| "getitem x k = Inl (TypeError ''object is not subscriptable'')"

text \<open>\<open>x[0]\<close>.\<close>

fun getitem0 :: "json \<Rightarrow> exn + json" where
  "getitem0 (JList xs) = (case xs of [] \<Rightarrow> Inl (IndexError ''list index out of range'') | v # _ \<Rightarrow> Inr v)"
| "getitem0 (JStr s) = (case s of [] \<Rightarrow> Inl (IndexError ''string index out of range'') | c # _ \<Rightarrow> Inr (JStr [c]))"
| "getitem0 (JDict d) = Inl (KeyError ''0'')"
| "getitem0 x = Inl (TypeError ''object is not subscriptable'')"

text \<open>\<open>d.get(k)\<close> and \<open>d.get(k, default)\<close> on a dict.\<close>

definition dict_get :: "(string \<times> json) list \<Rightarrow> string \<Rightarrow> json \<Rightarrow> json" where
  "dict_get d k dflt = (case map_of d k of Some v \<Rightarrow> v | None \<Rightarrow> dflt)"

text \<open>\<open>for x in v\<close>: the elements of a list, the characters of a string, the keys of a dict.\<close>

fun iterate :: "json \<Rightarrow> exn + json list" where
  "iterate (JList xs) = Inr xs"
| "iterate (JStr s) = Inr (map (\<lambda>c. JStr [c]) s)"
| "iterate (JDict d) = Inr (map (\<lambda>(k, v). JStr k) d)"
| "iterate x = Inl (TypeError ''object is not iterable'')"

text \<open>
  \<open>round(x)\<close> on a float: to the nearest integer, a tie to the even one; it raises on the
  special values.
\<close>

definition round_half_even :: "rat \<Rightarrow> int" where
  "round_half_even x =
     (let f = \<lfloor>x\<rfloor>; d = x - of_int f
      in if d < 1 / 2 then f else if 1 / 2 < d then f + 1 else if even f then f else f + 1)"

fun py_round :: "pyfloat \<Rightarrow> exn + int" where
  "py_round (Fin x) = Inr (round_half_even x)"
| "py_round NaN = Inl (ValueError ''cannot convert float NaN to integer'')"
| "py_round PosInf = Inl (OverflowError ''cannot convert float infinity to integer'')"
| "py_round NegInf = Inl (OverflowError ''cannot convert float infinity to integer'')"

text \<open>\<open>int(x)\<close> on a float: truncation towards zero.\<close>

fun py_int :: "pyfloat \<Rightarrow> exn + int" where
  "py_int (Fin x) = Inr (if 0 \<le> x then \<lfloor>x\<rfloor> else \<lceil>x\<rceil>)"
| "py_int NaN = Inl (ValueError ''cannot convert float NaN to integer'')"
| "py_int PosInf = Inl (OverflowError ''cannot convert float infinity to integer'')"
| "py_int NegInf = Inl (OverflowError ''cannot convert float infinity to integer'')"

text \<open>An HTTP response of the \<open>requests\<close> library, as far as the code reads it.\<close>

record response =
  status_code :: int
  resp_text :: string

text \<open>
  What the code uses and does not define: the provider behind \<open>requests.post\<close> (the outcome of
  the n-th call made, an exception or a response), \<open>random.uniform(-5, 5)\<close> (the n-th draw),
  \<open>json.loads\<close> (\<open>Inl\<close> is the message of its JSONDecodeError; \<open>response.json()\<close> is
  \<open>json.loads\<close> of the body), the conversions \<open>float(n)\<close> of an int and \<open>float(s)\<close> of a
  string, the float sum and product of two finite values, and the NLTK tokenizer, stop words, stemmer and lemmatizer.
\<close>

record env =
  provider :: "nat \<Rightarrow> exn + response"
  uniform :: "nat \<Rightarrow> rat"
  loads :: "string \<Rightarrow> string + json"
  float_of_int :: "int \<Rightarrow> exn + pyfloat"
  float_of_str :: "string \<Rightarrow> exn + pyfloat"
  float_add :: "rat \<Rightarrow> rat \<Rightarrow> rat"
  float_mul :: "rat \<Rightarrow> rat \<Rightarrow> pyfloat"
  word_tokenize :: "string \<Rightarrow> string list"
  stop_words :: "string set"
  stem :: "string \<Rightarrow> string"
  lemmatize :: "string \<Rightarrow> string"

text \<open>\<open>float(x)\<close>.\<close>

fun py_float :: "env \<Rightarrow> json \<Rightarrow> exn + pyfloat" where
  "py_float E (JInt i) = float_of_int E i"
| "py_float E (JFloat f) = Inr f"
| "py_float E (JBool b) = Inr (Fin (if b then 1 else 0))"
| "py_float E (JStr s) = float_of_str E s"
| "py_float E x = Inl (TypeError ''float() argument must be a string or a real number'')"

text \<open>
  A stored file: UTF-8 text, a .docx container with its paragraphs, or an .odt container with
  its \<open>text:p\<close> elements. The world is the file system, the number of \<open>requests.post\<close> calls and
  of random draws made so far, and the arguments of the \<open>time.sleep\<close> calls made so far.
\<close>

datatype filedata = TextFile string | DocxFile "string list" | OdtFile "string list"

record world =
  files :: "string \<rightharpoonup> filedata"
  posts :: nat
  draws :: nat
  sleeps :: "nat list"

definition post :: "env \<Rightarrow> world \<Rightarrow> (exn + response) \<times> world" where
  "post E w = (provider E (posts w), w\<lparr>posts := Suc (posts w)\<rparr>)"

definition sleep :: "nat \<Rightarrow> world \<Rightarrow> world" where
  "sleep secs w = w\<lparr>sleeps := sleeps w @ [secs]\<rparr>"

text \<open>
  \<open>open(path, "r", encoding="utf-8").read()\<close>: a missing file and a container, which is not
  UTF-8 text, raise.
\<close>

definition read_text :: "world \<Rightarrow> string \<Rightarrow> exn + string" where
  "read_text w path =
     (case files w path of
        None \<Rightarrow> Inl (OSError ''No such file or directory'')
      | Some (TextFile s) \<Rightarrow> Inr s
      | Some _ \<Rightarrow> Inl (ValueError ''codec can't decode byte''))"

section \<open>ProcessorAgent\<close>

text \<open>\<open>re.sub(r"[^a-z0-9\s]", "", text_data)\<close>.\<close>

definition remove_special :: "string \<Rightarrow> string" where
  "remove_special s =
     filter (\<lambda>c. c \<in> set ''abcdefghijklmnopqrstuvwxyz0123456789'' \<or> is_space c) s"

definition preprocess_text :: "env \<Rightarrow> string \<Rightarrow> string" where
  "preprocess_text E text_data =
     (let text1 = lower text_data;
          text2 = remove_special text1;
          tokens = word_tokenize E text2;
          tokens' = filter (\<lambda>word. word \<notin> stop_words E) tokens;
          stemmed = map (stem E) tokens';
          lemmatized = map (lemmatize E) stemmed
      in join '' '' lemmatized)"

definition extract_text_from_docx :: "world \<Rightarrow> string \<Rightarrow> exn + string" where
  "extract_text_from_docx w file_path =
     (case files w file_path of
        Some (DocxFile paragraphs) \<Rightarrow> Inr (join [CHR 0x0A] paragraphs)
      | _ \<Rightarrow> Inl (OSError ''Package not found''))"

definition extract_text_from_odt :: "world \<Rightarrow> string \<Rightarrow> exn + string" where
  "extract_text_from_odt w file_path =
     (case files w file_path of
        Some (OdtFile elems) \<Rightarrow> Inr (concat (map (\<lambda>elem. elem @ [CHR 0x0A]) elems))
      | _ \<Rightarrow> Inl (OSError ''File is not a zip file''))"

definition overwrite_file :: "world \<Rightarrow> string \<Rightarrow> string \<Rightarrow> exn + world" where
  "overwrite_file w file_path content =
     (if suffix ''.txt'' file_path then Inr (w\<lparr>files := (files w)(file_path \<mapsto> TextFile content)\<rparr>)
      else if suffix ''.docx'' file_path
        then Inr (w\<lparr>files := (files w)(file_path \<mapsto> DocxFile [content])\<rparr>)
      else if suffix ''.odt'' file_path
        then Inr (w\<lparr>files := (files w)(file_path \<mapsto> OdtFile [content])\<rparr>)
      else Inl (ValueError ''Unsupported file format for overwrite''))"

text \<open>
  \<open>process_file\<close> returns the preprocessed text and the world after the overwrite; an exception
  leaves the world as it was.
\<close>

definition process_file :: "env \<Rightarrow> string \<Rightarrow> world \<Rightarrow> exn + string \<times> world" where
  "process_file E file_path w =
     (case (if suffix ''.txt'' file_path then read_text w file_path
            else if suffix ''.docx'' file_path then extract_text_from_docx w file_path
            else if suffix ''.odt'' file_path then extract_text_from_odt w file_path
            else Inl (ValueError ''Unsupported file format'')) of
        Inl e \<Rightarrow> Inl e
      | Inr raw_text \<Rightarrow>
          (let preprocessed = preprocess_text E raw_text
           in case overwrite_file w file_path preprocessed of
                Inl e \<Rightarrow> Inl e
              | Inr w' \<Rightarrow> Inr (preprocessed, w')))"

section \<open>Reading the provider's answer\<close>

definition and_then :: "exn + 'a \<Rightarrow> ('a \<Rightarrow> exn + 'b) \<Rightarrow> exn + 'b" where
  "and_then m f = (case m of Inl e \<Rightarrow> Inl e | Inr x \<Rightarrow> f x)"

text \<open>\<open>response.json()["choices"][0]["message"]["content"]\<close>.\<close>

definition response_content :: "env \<Rightarrow> response \<Rightarrow> exn + json" where
  "response_content E response =
     and_then (case loads E (resp_text response) of
                 Inl m \<Rightarrow> Inl (JSONDecodeError m) | Inr body \<Rightarrow> Inr body)
       (\<lambda>body. and_then (getitem body ''choices'')
         (\<lambda>choices. and_then (getitem0 choices)
           (\<lambda>choice. and_then (getitem choice ''message'')
             (\<lambda>message. getitem message ''content''))))"

text \<open>
  \<open>if not content or content.isspace(): raise ValueError(msg)\<close> for the response content; a truthy
  value that is not a string has no \<open>isspace\<close>.
\<close>

definition nonblank :: "string \<Rightarrow> json \<Rightarrow> exn + string" where
  "nonblank msg content =
     (if \<not> truthy content then Inl (ValueError msg)
      else case content of
             JStr s \<Rightarrow> if isspace s then Inl (ValueError msg) else Inr s
           | _ \<Rightarrow> Inl (AttributeError ''object has no attribute isspace''))"

text \<open>
  \<open>re.search(r'\{[\s\S]*\}', response_content)\<close>: the match starts at the first \<open>{\<close> and, the
  star being greedy, ends at the last \<open>}\<close> after it; there is no match when no \<open>}\<close> follows
  the first \<open>{\<close>.
\<close>

definition json_match :: "string \<Rightarrow> string option" where
  "json_match s =
     (let from_open = dropWhile (\<lambda>c. c \<noteq> CHR ''{'') s
      in if from_open = [] then None
         else let inner = rev (dropWhile (\<lambda>c. c \<noteq> CHR ''}'') (rev (tl from_open)))
              in if inner = [] then None else Some (CHR ''{'' # inner))"

text \<open>
  The parsing written twice in the source (scraper\_agent.py lines 183-192, validator.py lines
  196-206): \<open>json.loads\<close> of the stripped text; on a JSONDecodeError the regular expression is
  searched in the unstripped text and the match is given to \<open>json.loads\<close>, whose error is not
  handled there.
\<close>

definition extract_json :: "env \<Rightarrow> string \<Rightarrow> exn + json" where
  "extract_json E content =
     (case loads E (strip content) of
        Inr data \<Rightarrow> Inr data
      | Inl _ \<Rightarrow>
          (case json_match content of
             Some matched \<Rightarrow> (case loads E matched of Inr data \<Rightarrow> Inr data | Inl m \<Rightarrow> Inl (JSONDecodeError m))
           | None \<Rightarrow> Inl (ValueError ''No valid JSON found in response'')))"

section \<open>ScraperAgent\<close>

definition categories :: "(string \<times> string list) list" where
  "categories =
     [(''E-commerce'', [''shop'', ''retail'', ''store'', ''marketplace'', ''commerce'', ''sell'']),
      (''FinTech'', [''payment'', ''finance'', ''bank'', ''invest'', ''money'', ''trading'']),
      (''EdTech'', [''education'', ''learn'', ''teach'', ''student'', ''school'', ''course'']),
      (''HealthTech'', [''health'', ''medical'', ''wellness'', ''fitness'', ''doctor'', ''patient'']),
      (''AI/ML'', [''ai'', ''machine learning'', ''artificial intelligence'', ''predict'', ''automate'']),
      (''SaaS'', [''software'', ''platform'', ''service'', ''cloud'', ''subscription'']),
      (''Enterprise'', [''business'', ''enterprise'', ''corporate'', ''company'', ''organization'']),
      (''Consumer'', [''user'', ''consumer'', ''personal'', ''individual'', ''customer'']),
      (''Mobile'', [''app'', ''mobile'', ''phone'', ''ios'', ''android'']),
      (''IoT'', [''iot'', ''device'', ''sensor'', ''hardware'', ''smart home''])]"

text \<open>\<open>_get_category\<close>: the state of the loop is \<open>(best_category, max_matches)\<close>.\<close>

definition get_category :: "string \<Rightarrow> string" where
  "get_category description0 =
     (let description = lower description0
      in fst (foldl (\<lambda>(best_category, max_matches) (category, keywords).
                 let matches = length (filter (\<lambda>keyword. sublist keyword description) keywords)
                 in if matches > max_matches then (category, matches)
                    else (best_category, max_matches))
               (''General'', 0) categories))"

text \<open>Lines 204-209: an entry is kept when it is a dict with truthy name and description.\<close>

definition valid_idea :: "json \<Rightarrow> bool" where
  "valid_idea idea =
     (case idea of
        JDict d \<Rightarrow> truthy (dict_get d ''idea_name'' JNull) \<and> truthy (dict_get d ''idea_description'' JNull)
      | _ \<Rightarrow> False)"

text \<open>
  Lines 220-225 for the entry at index \<open>i\<close> and the drawn \<open>variation\<close>; the sum of the int and
  the float is a float sum.
\<close>

definition base_similarity :: "nat \<Rightarrow> int" where
  "base_similarity i = max (85 - int i * 10) 25"

definition similarity :: "env \<Rightarrow> nat \<Rightarrow> rat \<Rightarrow> int" where
  "similarity E i variation =
     round_half_even (max 1 (min 100 (float_add E (of_int (base_similarity i)) variation)))"

text \<open>
  The loop of lines 218-226 from index \<open>i\<close> on, with \<open>n\<close> random draws made before; it returns
  the enriched entries and the number of draws made. \<open>_get_category\<close> is evaluated before
  \<open>idea.get\<close> looks for a category, and calls \<open>lower\<close> on the description, which only a string
  has.
\<close>

fun enrich :: "env \<Rightarrow> nat \<Rightarrow> json list \<Rightarrow> nat \<Rightarrow> (exn + json list) \<times> nat" where
  "enrich E i [] n = (Inr [], n)"
| "enrich E i (idea # rest) n =
     (case idea of
        JDict d \<Rightarrow>
          (let variation = uniform E n;
               d1 = AList.update ''similarity'' (JInt (similarity E i variation)) d
           in case dict_get d1 ''idea_description'' JNull of
                JStr description \<Rightarrow>
                  (let d2 = AList.update ''category''
                              (dict_get d1 ''category'' (JStr (get_category description))) d1
                   in case enrich E (Suc i) rest (Suc n) of
                        (Inl e, n') \<Rightarrow> (Inl e, n')
                      | (Inr ideas, n') \<Rightarrow> (Inr (JDict d2 # ideas), n'))
              | _ \<Rightarrow> (Inl (AttributeError ''object has no attribute lower''), Suc n))
      | _ \<Rightarrow> (Inl (TypeError ''object does not support item assignment''), n))"

text \<open>
  The body of the inner \<open>try\<close> (lines 178-231) for a response of status 200, in two parts.
  \<open>scraper_parse\<close> is lines 178-214: the parsed \<open>data\<close> with its key \<open>similar_ideas\<close> ensured,
  and the valid entries. \<open>scraper_process\<close> adds lines 217-231, with \<open>n\<close> draws made before:
  the JSON text to return or the exception raised, and the number of draws made.
\<close>

definition scraper_parse :: "env \<Rightarrow> response \<Rightarrow> exn + (string \<times> json) list \<times> json list" where
  "scraper_parse E response =
     and_then (response_content E response)
       (\<lambda>c. and_then (nonblank ''Empty response from Mistral API'' c)
         (\<lambda>s. and_then (extract_json E s)
           (\<lambda>data0.
              let data1 = (case data0 of JDict d \<Rightarrow> d | _ \<Rightarrow> [(''similar_ideas'', JList [])]);
                  data2 = (if ''similar_ideas'' \<in> set (map fst data1) then data1
                           else AList.update ''similar_ideas'' (JList []) data1)
              in and_then (iterate (dict_get data2 ''similar_ideas'' JNull))
                   (\<lambda>ideas. Inr (data2, filter valid_idea ideas)))))"

definition scraper_process :: "env \<Rightarrow> response \<Rightarrow> nat \<Rightarrow> (exn + json) \<times> nat" where
  "scraper_process E response n =
     (case scraper_parse E response of
        Inl e \<Rightarrow> (Inl e, n)
      | Inr (data, valid_ideas) \<Rightarrow>
          if length valid_ideas > 0
          then (case enrich E 0 valid_ideas n of
                  (Inl e, n') \<Rightarrow> (Inl e, n')
                | (Inr enriched, n') \<Rightarrow>
                    (Inr (JDict (AList.update ''similar_ideas'' (JList enriched) data)), n'))
          else (Inl (ValueError ''No valid ideas found in response''), n))"

definition str_opt :: "string option \<Rightarrow> string" where
  "str_opt last_error = (case last_error of None \<Rightarrow> ''None'' | Some m \<Rightarrow> m)"

text \<open>The value returned after the loop (lines 256-259).\<close>

definition scraper_failure :: "int \<Rightarrow> string option \<Rightarrow> json" where
  "scraper_failure max_retries last_error =
     JDict [(''similar_ideas'', JList []),
            (''error'', JStr (''Failed to get valid response after '' @ str_int max_retries
                               @ '' attempts. Last error: '' @ str_opt last_error))]"

text \<open>\<open>if attempt < max_retries - 1: time.sleep(secs)\<close>.\<close>

definition backoff :: "int \<Rightarrow> nat \<Rightarrow> nat \<Rightarrow> world \<Rightarrow> world" where
  "backoff max_retries attempt secs w = (if int attempt < max_retries - 1 then sleep secs w else w)"

text \<open>
  The loop \<open>for attempt in range(max_retries)\<close> of \<open>ScraperAgent.query_mistral\<close> over the
  attempts still to make. A JSON text that \<open>json.dumps\<close> returns is represented by the value
  it denotes.
\<close>

fun scraper_loop :: "env \<Rightarrow> int \<Rightarrow> nat list \<Rightarrow> string option \<Rightarrow> world \<Rightarrow> json \<times> world" where
  "scraper_loop E max_retries [] last_error w = (scraper_failure max_retries last_error, w)"
| "scraper_loop E max_retries (attempt # rest) last_error w =
     (case post E w of
        (Inl e, w1) \<Rightarrow>
          scraper_loop E max_retries rest (Some (str_exn e)) (backoff max_retries attempt 1 w1)
      | (Inr response, w1) \<Rightarrow>
          if status_code response = 200
          then (case scraper_process E response (draws w1) of
                  (Inr out, n) \<Rightarrow> (out, w1\<lparr>draws := n\<rparr>)
                | (Inl e, n) \<Rightarrow>
                    scraper_loop E max_retries rest (Some (str_exn e))
                      (backoff max_retries attempt (2 ^ attempt) (w1\<lparr>draws := n\<rparr>)))
          else if status_code response = 429
          then scraper_loop E max_retries rest (Some ''Rate limit exceeded'')
                 (backoff max_retries attempt (2 ^ attempt) w1)
          else (scraper_failure max_retries
                  (Some (''HTTP '' @ str_int (status_code response) @ '': '' @ resp_text response)), w1))"

definition scraper_query_mistral :: "env \<Rightarrow> int \<Rightarrow> world \<Rightarrow> json \<times> world" where
  "scraper_query_mistral E max_retries w =
     scraper_loop E max_retries [0..<nat max_retries] None w"

text \<open>
  \<open>ScraperAgent(api_key, file_path).query_mistral()\<close>: the constructor reads the file, which
  can raise.
\<close>

definition scraper_agent :: "env \<Rightarrow> string \<Rightarrow> world \<Rightarrow> (exn + json) \<times> world" where
  "scraper_agent E file_path w =
     (case read_text w file_path of
        Inl e \<Rightarrow> (Inl e, w)
      | Inr text_data \<Rightarrow> (case scraper_query_mistral E 3 w of (out, w') \<Rightarrow> (Inr out, w')))"

section \<open>IdeaEnhancer: cleaning and deduplication of suggestion sections\<close>

text \<open>
  \<open>EnhancerAgent._similarity_score\<close>: 0 when either text is empty, else the Jaccard index of
  the two sets of lowercased whitespace-separated words. The quotient is a Python float; it is
  modelled by the exact rational. The only use compares it with the literal \<open>0.7\<close>, and the
  float quotient of two word counts lies on the same side of the float \<open>0.7\<close> as the exact
  quotient does of 7/10 for every union of fewer than \<open>10^15\<close> words.
\<close>

definition similarity_score :: "string \<Rightarrow> string \<Rightarrow> rat" where
  "similarity_score text1 text2 =
     (if text1 = [] \<or> text2 = [] then 0
      else let words1 = set (split_ws (lower text1));
               words2 = set (split_ws (lower text2));
               intersection = card (words1 \<inter> words2);
               union = card (words1 \<union> words2)
           in if union > 0 then of_nat intersection / of_nat union else 0)"

text \<open>The test of the inner loop of \<open>enhance_idea\<close> (lines 123-125) for one kept section.\<close>

definition near_duplicate :: "string \<Rightarrow> string \<Rightarrow> bool" where
  "near_duplicate cleaned_section seen =
     (sublist (lower cleaned_section) (lower seen) \<or>
      sublist (lower seen) (lower cleaned_section) \<or>
      similarity_score cleaned_section seen > 7 / 10)"

text \<open>
  The cleaning of one line (lines 100-112): \<open>None\<close> is a line that is skipped. Of the
  characters given to \<open>lstrip\<close> only \<open>.\<close> and \<open>-\<close> are code points below 256.
\<close>

definition clean_line :: "string \<Rightarrow> string option" where
  "clean_line line0 =
     (let line1 = strip line0 in
      if line1 = [] then None
      else let line2 = replace ''-'' [] (replace ''*'' [] line1);
               line3 = (if line2 \<noteq> [] \<and> is_digit (hd line2)
                        then strip (join ''.'' (tl (split ''.'' line2))) else line2);
               line4 = strip (lstrip_chars ''.-'' line3)
           in if line4 \<noteq> [] then Some line4 else None)"

definition clean_section :: "string \<Rightarrow> string option" where
  "clean_section section =
     (if strip section = [] then None
      else let cleaned_lines = List.map_filter clean_line (split [CHR 0x0A] section)
           in if cleaned_lines = [] then None else Some (join '' '' cleaned_lines))"

text \<open>
  The deduplication state: \<open>seen_content\<close> (a Python set) and \<open>unique_sections\<close> (a list).
  \<open>dedup_step\<close> is the end of the loop body (lines 120-132) for one cleaned section; the loop
  over \<open>list(seen_content)\<close> with its \<open>break\<close> finds out whether some element passes the test.
\<close>

record dedup_state =
  seen_content :: "string set"
  unique_sections :: "string list"

definition dedup_step :: "dedup_state \<Rightarrow> string \<Rightarrow> dedup_state" where
  "dedup_step st cleaned_section =
     (let is_duplicate = (\<exists>seen \<in> seen_content st. near_duplicate cleaned_section seen)
      in if \<not> is_duplicate
         then \<lparr>seen_content = insert cleaned_section (seen_content st),
               unique_sections = unique_sections st @ [cleaned_section]\<rparr>
         else st)"

definition dedup_init :: dedup_state where
  "dedup_init = \<lparr>seen_content = {}, unique_sections = []\<rparr>"

definition dedup :: "string list \<Rightarrow> string list" where
  "dedup cleaned = unique_sections (foldl dedup_step dedup_init cleaned)"

text \<open>Lines 86-136: the post-processing of the non-empty, stripped model text.\<close>

definition postprocess :: "string \<Rightarrow> string" where
  "postprocess content =
     join [CHR 0x0A, CHR 0x0A]
       (dedup (List.map_filter clean_section (split [CHR 0x0A, CHR 0x0A] content)))"

text \<open>
  \<open>enhance_idea\<close>. Nothing in it is inside a \<open>try\<close> except the reading of the competitor
  list: the file read, the constructor of the ScraperAgent, \<open>requests.post\<close>, the path into
  the response and the empty-content check raise to the caller.
\<close>

definition str_strip :: "json \<Rightarrow> exn + string" where
  "str_strip content =
     (case content of JStr s \<Rightarrow> Inr (strip s) | _ \<Rightarrow> Inl (AttributeError ''object has no attribute strip''))"

text \<open>Line 47: each competitor is subscripted with both keys.\<close>

fun comp_str_error :: "json list \<Rightarrow> exn option" where
  "comp_str_error [] = None"
| "comp_str_error (c # cs) =
     (case and_then (getitem c ''idea_name'') (\<lambda>_. getitem c ''idea_description'') of
        Inl e \<Rightarrow> Some e
      | Inr _ \<Rightarrow> comp_str_error cs)"

definition enhance_idea :: "env \<Rightarrow> string \<Rightarrow> world \<Rightarrow> (exn + string) \<times> world" where
  "enhance_idea E idea_file_path w =
     (case read_text w idea_file_path of
        Inl e \<Rightarrow> (Inl e, w)
      | Inr idea_text \<Rightarrow>
          (case scraper_agent E idea_file_path w of
             (Inl e, w1) \<Rightarrow> (Inl e, w1)
           | (Inr competitors_json, w1) \<Rightarrow>
               (let competitors = (case getitem competitors_json ''similar_ideas'' of
                                     Inr v \<Rightarrow> v | Inl _ \<Rightarrow> JList [])
                in case and_then (iterate competitors)
                          (\<lambda>cs. case comp_str_error cs of Some e \<Rightarrow> Inl e | None \<Rightarrow> Inr cs) of
                     Inl e \<Rightarrow> (Inl e, w1)
                   | Inr _ \<Rightarrow>
                       (case post E w1 of
                          (Inl e, w2) \<Rightarrow> (Inl e, w2)
                        | (Inr resp, w2) \<Rightarrow>
                            if status_code resp = 200
                            then (case and_then (response_content E resp) str_strip of
                                    Inl e \<Rightarrow> (Inl e, w2)
                                  | Inr content \<Rightarrow>
                                      if content = []
                                      then (Inl (ValueError ''Empty response from API''), w2)
                                      else (Inr (postprocess content), w2))
                            else (Inr (''Error: '' @ str_int (status_code resp) @ '', ''
                                        @ resp_text resp), w2)))))"

section \<open>ValidatorAgent\<close>

definition required_scores :: "string list" where
  "required_scores = [''uniqueness'', ''feasibility'', ''market_trend'',
     ''scalability'', ''problem_relevance'', ''user_adoption_potential'']"

text \<open>\<open>0 <= score_value <= 10\<close> on a float.\<close>

fun in_range :: "pyfloat \<Rightarrow> bool" where
  "in_range (Fin x) = (0 \<le> x \<and> x \<le> 10)"
| "in_range _ = False"

text \<open>\<open>except (ValueError, TypeError)\<close>; JSONDecodeError is a subclass of ValueError.\<close>

fun value_or_type_error :: "exn \<Rightarrow> bool" where
  "value_or_type_error (ValueError m) = True"
| "value_or_type_error (JSONDecodeError m) = True"
| "value_or_type_error (TypeError m) = True"
| "value_or_type_error _ = False"

text \<open>The loop of \<open>_validate_scores\<close> (lines 53-61) over the names still to check.\<close>

fun check_scores :: "env \<Rightarrow> (string \<times> json) list \<Rightarrow> string list \<Rightarrow> exn + bool" where
  "check_scores E scores [] = Inr True"
| "check_scores E scores (score_name # rest) =
     (case map_of scores score_name of
        None \<Rightarrow> Inr False
      | Some v \<Rightarrow>
          (case py_float E v of
             Inl e \<Rightarrow> if value_or_type_error e then Inr False else Inl e
           | Inr score_value \<Rightarrow>
               if \<not> in_range score_value then Inr False else check_scores E scores rest))"

definition validate_scores :: "env \<Rightarrow> json \<Rightarrow> exn + bool" where
  "validate_scores E data =
     (case data of
        JDict d \<Rightarrow>
          (case map_of d ''validation_scores'' of
             Some (JDict scores) \<Rightarrow> check_scores E scores required_scores
           | _ \<Rightarrow> Inr False)
      | _ \<Rightarrow> Inr False)"

text \<open>Lines 212-213: \<open>for key in scores: scores[key] = round(float(scores[key]))\<close>.\<close>

fun round_scores :: "env \<Rightarrow> (string \<times> json) list \<Rightarrow> exn + (string \<times> json) list" where
  "round_scores E [] = Inr []"
| "round_scores E ((key, v) # rest) =
     and_then (py_float E v) (\<lambda>x. and_then (py_round x)
       (\<lambda>r. and_then (round_scores E rest) (\<lambda>rs. Inr ((key, JInt r) # rs))))"

text \<open>\<open>sum(scores.values())\<close> of the rounded scores.\<close>

definition sum_values :: "(string \<times> json) list \<Rightarrow> int" where
  "sum_values scores = sum_list (map (\<lambda>(key, v). case v of JInt i \<Rightarrow> i | _ \<Rightarrow> 0) scores)"

text \<open>Lines 193-220, from the response content on.\<close>

definition validator_process :: "env \<Rightarrow> json \<Rightarrow> exn + json" where
  "validator_process E content =
     and_then (nonblank ''Empty response from API'' content)
       (\<lambda>s. and_then (extract_json E s)
         (\<lambda>parsed_data. and_then (validate_scores E parsed_data)
           (\<lambda>ok. if ok
                 then (case parsed_data of
                         JDict d \<Rightarrow>
                           (case map_of d ''validation_scores'' of
                              Some (JDict scores) \<Rightarrow>
                                and_then (round_scores E scores)
                                  (\<lambda>scores'. Inr (JDict
                                     (AList.update ''overall_score'' (JInt (sum_values scores'))
                                        (AList.update ''validation_scores'' (JDict scores') d))))
                            | _ \<Rightarrow> Inl (TypeError ''object is not subscriptable''))
                       | _ \<Rightarrow> Inl (TypeError ''object is not subscriptable''))
                 else Inl (ValueError ''Invalid score values in response''))))"

text \<open>The value returned after the loop (lines 248-261).\<close>

definition validator_failure :: "int \<Rightarrow> string option \<Rightarrow> json option \<Rightarrow> json" where
  "validator_failure max_retries last_error raw =
     JDict [(''validation_scores'', JDict (map (\<lambda>name. (name, JInt 0)) required_scores)),
            (''overall_score'', JInt 0),
            (''error'', JStr (''Failed to get valid validation scores after '' @ str_int max_retries
                               @ '' attempts. Last error: '' @ str_opt last_error)),
            (''raw_response'', (case raw of None \<Rightarrow> JNull | Some c \<Rightarrow> c))]"

text \<open>
  The loop of \<open>ValidatorAgent.query_mistral\<close>; \<open>raw\<close> is the local \<open>response_content\<close>, unset
  until a response content has been read.
\<close>

fun validator_loop ::
  "env \<Rightarrow> int \<Rightarrow> nat list \<Rightarrow> string option \<Rightarrow> json option \<Rightarrow> world \<Rightarrow> json \<times> world" where
  "validator_loop E max_retries [] last_error raw w = (validator_failure max_retries last_error raw, w)"
| "validator_loop E max_retries (attempt # rest) last_error raw w =
     (case post E w of
        (Inl e, w1) \<Rightarrow>
          validator_loop E max_retries rest (Some (str_exn e)) raw (backoff max_retries attempt 1 w1)
      | (Inr response, w1) \<Rightarrow>
          if status_code response = 200
          then (case response_content E response of
                  Inl e \<Rightarrow>
                    validator_loop E max_retries rest (Some (str_exn e)) raw
                      (backoff max_retries attempt (2 ^ attempt) w1)
                | Inr content \<Rightarrow>
                    (case validator_process E content of
                       Inr out \<Rightarrow> (out, w1)
                     | Inl e \<Rightarrow>
                         validator_loop E max_retries rest (Some (str_exn e)) (Some content)
                           (backoff max_retries attempt (2 ^ attempt) w1)))
          else if status_code response = 429
          then validator_loop E max_retries rest (Some ''Rate limit exceeded'') raw
                 (backoff max_retries attempt (2 ^ attempt) w1)
          else (validator_failure max_retries
                  (Some (''HTTP '' @ str_int (status_code response) @ '': '' @ resp_text response))
                  raw, w1))"

text \<open>
  \<open>_analyze_competitors\<close>: a full run of the ScraperAgent, then the \<open>try\<close> of lines 23-34, of
  which any exception gives \<open>(0, [])\<close>. The similarities are summed and compared as numbers;
  the scraper writes them as ints.
\<close>

fun number :: "json \<Rightarrow> rat option" where
  "number (JInt i) = Some (of_int i)"
| "number (JFloat (Fin x)) = Some x"
| "number (JBool b) = Some (if b then 1 else 0)"
| "number _ = None"

definition similarity_of :: "json \<Rightarrow> rat option" where
  "similarity_of competitor = (case competitor of JDict d \<Rightarrow> number (dict_get d ''similarity'' (JInt 0)) | _ \<Rightarrow> None)"

definition competitor_stats :: "json \<Rightarrow> rat \<times> json list" where
  "competitor_stats data =
     (case getitem data ''similar_ideas'' of
        Inr (JList competitors) \<Rightarrow>
          (if list_all (\<lambda>competitor. similarity_of competitor \<noteq> None) competitors
           then (let similarities = map (\<lambda>competitor. the (similarity_of competitor)) competitors;
                     avg_similarity = (if similarities \<noteq> []
                                       then sum_list similarities / of_nat (length similarities) else 0);
                     top_competitors = take 3 (rev (sort_key (\<lambda>competitor. the (similarity_of competitor))
                                                       (rev competitors)))
                 in (avg_similarity, top_competitors))
           else (0, []))
      | _ \<Rightarrow> (0, []))"

definition analyze_competitors :: "env \<Rightarrow> string \<Rightarrow> world \<Rightarrow> (exn + rat \<times> json list) \<times> world" where
  "analyze_competitors E file_path w =
     (case scraper_agent E file_path w of
        (Inl e, w1) \<Rightarrow> (Inl e, w1)
      | (Inr competitors_json, w1) \<Rightarrow> (Inr (competitor_stats competitors_json), w1))"

text \<open>
  \<open>ValidatorAgent.query_mistral\<close>: the competitor analysis, the competitor context (which
  subscripts each top competitor with both keys), then the loop.
\<close>

definition validator_query_mistral :: "env \<Rightarrow> int \<Rightarrow> string \<Rightarrow> world \<Rightarrow> (exn + json) \<times> world" where
  "validator_query_mistral E max_retries file_path w =
     (case analyze_competitors E file_path w of
        (Inl e, w1) \<Rightarrow> (Inl e, w1)
      | (Inr (avg_similarity, top_competitors), w1) \<Rightarrow>
          (case comp_str_error top_competitors of
             Some e \<Rightarrow> (Inl e, w1)
           | None \<Rightarrow>
               (case validator_loop E max_retries [0..<nat max_retries] None None w1 of
                  (out, w2) \<Rightarrow> (Inr out, w2))))"

definition validator_agent :: "env \<Rightarrow> string \<Rightarrow> world \<Rightarrow> (exn + json) \<times> world" where
  "validator_agent E file_path w =
     (case read_text w file_path of
        Inl e \<Rightarrow> (Inl e, w)
      | Inr text_data \<Rightarrow> validator_query_mistral E 3 file_path w)"

section \<open>MainAgent and the HTTP endpoint\<close>

text \<open>
  Lines 24-31. \<open>json.loads\<close> of a text that \<open>json.dumps\<close> returned gives the value back, so
  the \<open>except\<close> branch is not met.
\<close>

definition competitors_of :: "json \<Rightarrow> json" where
  "competitors_of competitors =
     (case competitors of
        JDict d \<Rightarrow> (case map_of d ''similar_ideas'' of Some v \<Rightarrow> v | None \<Rightarrow> JList [])
      | JList xs \<Rightarrow> JList xs
      | _ \<Rightarrow> JList [])"

text \<open>\<open>score_mappings\<close>: key, category, color, explanation.\<close>

definition score_mappings :: "(string \<times> string \<times> string \<times> string) list" where
  "score_mappings =
     [(''uniqueness'', ''Uniqueness'', ''from-purple-400 to-pink-500'',
         ''How original the idea is compared to existing solutions''),
      (''feasibility'', ''Feasibility'', ''from-green-400 to-emerald-500'',
         ''Practicality of building and executing the idea''),
      (''market_trend'', ''Market Trend'', ''from-blue-400 to-indigo-500'',
         ''Alignment with current and emerging market trends''),
      (''scalability'', ''Scalability'', ''from-orange-400 to-red-500'',
         ''Ability to expand and grow at larger scale''),
      (''problem_relevance'', ''Problem Relevance'', ''from-cyan-400 to-blue-500'',
         ''Importance of the problem being solved''),
      (''user_adoption_potential'', ''User Adoption'', ''from-yellow-400 to-orange-500'',
         ''Likelihood that users will adopt this solution'')]"

text \<open>\<open>float(score) * 10\<close>.\<close>

fun times10 :: "env \<Rightarrow> pyfloat \<Rightarrow> pyfloat" where
  "times10 E (Fin x) = float_mul E x 10"
| "times10 E f = f"

text \<open>The loop of lines 77-85 over the items of \<open>validation_scores\<close>.\<close>

fun score_entries :: "env \<Rightarrow> (string \<times> json) list \<Rightarrow> exn + json list" where
  "score_entries E [] = Inr []"
| "score_entries E ((key, score) # rest) =
     (case map_of score_mappings key of
        None \<Rightarrow> score_entries E rest
      | Some (category, color, explanation) \<Rightarrow>
          and_then (py_float E score) (\<lambda>x. and_then (py_int (times10 E x))
            (\<lambda>n. and_then (score_entries E rest)
              (\<lambda>entries. Inr (JDict [(''category'', JStr category), (''score'', JInt n),
                                     (''explanation'', JStr explanation), (''color'', JStr color)]
                               # entries)))))"

text \<open>Lines 73-87: any exception leaves \<open>scores = []\<close>.\<close>

definition structure_scores :: "env \<Rightarrow> json \<Rightarrow> json list" where
  "structure_scores E val_data =
     (case val_data of
        JDict d \<Rightarrow>
          (case map_of d ''validation_scores'' of
             Some (JDict scores) \<Rightarrow> (case score_entries E scores of Inl e \<Rightarrow> [] | Inr entries \<Rightarrow> entries)
           | _ \<Rightarrow> [])
      | _ \<Rightarrow> [])"

text \<open>
  Lines 100-102: the index \<open>i\<close> of the comprehension counts the lines of the text, also the
  blank ones that the filter drops.
\<close>

definition suggestions_list :: "string \<Rightarrow> string list" where
  "suggestions_list suggestions_text =
     map (\<lambda>(i, s). strip (replace (str_nat (i + 1) @ ''.'') [] (strip s)))
       (filter (\<lambda>(i, s). strip s \<noteq> []) (enumerate 0 (split [CHR 0x0A] suggestions_text)))"

text \<open>Line 108.\<close>

definition priority_of :: "nat \<Rightarrow> string" where
  "priority_of i = (if i < 2 then ''high'' else if i < 4 then ''medium'' else ''low'')"

definition suggestion_item :: "string \<Rightarrow> string \<Rightarrow> json" where
  "suggestion_item sug priority =
     JDict [(''category'', JStr ''Enhancement''), (''tip'', JStr sug), (''priority'', JStr priority)]"

text \<open>
  Lines 105-114: the index \<open>i\<close> counts the entries of \<open>suggestions_list\<close>, also the empty ones
  that \<open>if sug\<close> skips.
\<close>

definition structure_suggestions :: "string \<Rightarrow> json list" where
  "structure_suggestions suggestions_text =
     map (\<lambda>(i, sug). suggestion_item sug (priority_of i))
       (filter (\<lambda>(i, sug). sug \<noteq> []) (enumerate 0 (suggestions_list suggestions_text)))"

text \<open>Lines 119-129; \<open>float(...)\<close> is outside every \<open>try\<close>.\<close>

fun structured_competitors :: "env \<Rightarrow> json list \<Rightarrow> exn + json list" where
  "structured_competitors E [] = Inr []"
| "structured_competitors E (c # rest) =
     (case c of
        JDict d \<Rightarrow>
          and_then (py_float E (dict_get d ''similarity'' (JInt 50)))
            (\<lambda>x. and_then (structured_competitors E rest)
              (\<lambda>cs. Inr (JDict [(''name'', dict_get d ''idea_name'' (JStr ''Unnamed Competitor'')),
                                (''description'', dict_get d ''idea_description'' (JStr [])),
                                (''website'', dict_get d ''website'' (JStr [])),
                                (''category'', dict_get d ''category'' (JStr ''General'')),
                                (''similarity'', JFloat x)] # cs)))
      | _ \<Rightarrow> structured_competitors E rest)"

definition structure_competitors :: "env \<Rightarrow> json \<Rightarrow> exn + json list" where
  "structure_competitors E competitors =
     (case competitors of JList cs \<Rightarrow> structured_competitors E cs | _ \<Rightarrow> Inr [])"

text \<open>
  \<open>MainAgent.run_pipeline\<close>. The four stage calls (lines 16, 19-20, 34-35, 90-91) are outside
  every \<open>try\<close> of the function.
\<close>

definition run_pipeline :: "env \<Rightarrow> string \<Rightarrow> world \<Rightarrow> (exn + json) \<times> world" where
  "run_pipeline E file_path w =
     (case process_file E file_path w of
        Inl e \<Rightarrow> (Inl e, w)
      | Inr (processed_text, w1) \<Rightarrow>
          (case scraper_agent E file_path w1 of
             (Inl e, w2) \<Rightarrow> (Inl e, w2)
           | (Inr competitors_json, w2) \<Rightarrow>
               (case validator_agent E file_path w2 of
                  (Inl e, w3) \<Rightarrow> (Inl e, w3)
                | (Inr validation_result, w3) \<Rightarrow>
                    (case enhance_idea E file_path w3 of
                       (Inl e, w4) \<Rightarrow> (Inl e, w4)
                     | (Inr suggestions_text, w4) \<Rightarrow>
                         (case structure_competitors E (competitors_of competitors_json) of
                            Inl e \<Rightarrow> (Inl e, w4)
                          | Inr competitor_entries \<Rightarrow>
                              (Inr (JDict
                                 [(''scores'', JList (structure_scores E validation_result)),
                                  (''suggestions'', JList (structure_suggestions suggestions_text)),
                                  (''competitors'', JList competitor_entries),
                                  (''error'', JNull)]), w4))))))"

text \<open>The result of the \<open>except\<close> branches of the endpoint.\<close>

definition error_result :: "string \<Rightarrow> json" where
  "error_result msg =
     JDict [(''scores'', JList []), (''suggestions'', JList []), (''competitors'', JList []),
            (''error'', JStr msg)]"

text \<open>Lines 37-41 of app.py: a missing expected field is set to the empty list.\<close>

definition fill_missing :: "json \<Rightarrow> json" where
  "fill_missing result =
     (case result of
        JDict d \<Rightarrow>
          JDict (foldl (\<lambda>d field. if field \<in> set (map fst d) then d
                                   else AList.update field (JList []) d)
                   d [''scores'', ''suggestions'', ''competitors''])
      | _ \<Rightarrow> result)"

text \<open>
  The endpoint \<open>run_pipeline\<close> of app.py: it stores the upload as \<open>temp_<filename>\<close> and runs
  the MainAgent inside \<open>try\<close>. Storing the upload does not fail in this model of the file
  system.
\<close>

definition endpoint :: "env \<Rightarrow> string \<Rightarrow> filedata \<Rightarrow> world \<Rightarrow> json \<times> world" where
  "endpoint E filename upload w =
     (let file_path = ''temp_'' @ filename;
          w0 = w\<lparr>files := (files w)(file_path \<mapsto> upload)\<rparr>
      in case run_pipeline E file_path w0 of
           (Inr result, w') \<Rightarrow> (fill_missing result, w')
         | (Inl (JSONDecodeError m), w') \<Rightarrow> (error_result (''Invalid JSON response: '' @ m), w')
         | (Inl e, w') \<Rightarrow> (error_result (''Pipeline error: '' @ str_exn e), w'))"

section \<open>Failed attempts of the retry loops\<close>

text \<open>
  The failures of an attempt after which the loop of \<open>ScraperAgent.query_mistral\<close> goes on,
  read off the outcome of \<open>requests.post\<close>, each with the message it leaves in \<open>last_error\<close>:
  an exception of the call (a transport-level failure), a response of status 429, and a
  response of status 200 of which the body is malformed (\<open>response.json()[...]\<close> raises), or
  the message content is empty or blank, or the content holds no JSON even after the repair
  (the extraction raises), or the JSON has no valid entry. \<open>no_valid_entry\<close>: the JSON is not
  an object, or has no \<open>similar_ideas\<close>, or no element of \<open>similar_ideas\<close> is an object with
  a truthy \<open>idea_name\<close> and a truthy \<open>idea_description\<close>.
\<close>

definition no_valid_entry :: "json \<Rightarrow> bool" where
  "no_valid_entry data =
     (case data of
        JDict d \<Rightarrow>
          (case map_of d ''similar_ideas'' of
             None \<Rightarrow> True
           | Some v \<Rightarrow>
               (case iterate v of
                  Inl e \<Rightarrow> False
                | Inr ideas \<Rightarrow>
                    list_all (\<lambda>idea. case idea of
                                JDict entry \<Rightarrow> \<not> (truthy (dict_get entry ''idea_name'' JNull)
                                                \<and> truthy (dict_get entry ''idea_description'' JNull))
                              | _ \<Rightarrow> True) ideas))
      | _ \<Rightarrow> True)"

definition retryable_failure :: "env \<Rightarrow> exn + response \<Rightarrow> string option" where
  "retryable_failure E outcome =
     (case outcome of
        Inl e \<Rightarrow> Some (str_exn e)
      | Inr response \<Rightarrow>
          if status_code response = 429 then Some ''Rate limit exceeded''
          else if status_code response = 200
          then (case response_content E response of
                  Inl e \<Rightarrow> Some (str_exn e)
                | Inr content \<Rightarrow>
                    if \<not> truthy content then Some ''Empty response from Mistral API''
                    else (case content of
                            JStr s \<Rightarrow>
                              if isspace s then Some ''Empty response from Mistral API''
                              else (case extract_json E s of
                                      Inl e \<Rightarrow> Some (str_exn e)
                                    | Inr data \<Rightarrow>
                                        if no_valid_entry data
                                        then Some ''No valid ideas found in response''
                                        else None)
                          | _ \<Rightarrow> None))
          else None)"


text \<open>
  The argument of the \<open>time.sleep\<close> that follows a failed attempt when it is not the last one:
  1 after an exception of the call, \<open>2 ** attempt\<close> otherwise.
\<close>

definition retry_delay :: "exn + response \<Rightarrow> nat \<Rightarrow> nat" where
  "retry_delay outcome attempt = (case outcome of Inl e \<Rightarrow> 1 | Inr response \<Rightarrow> 2 ^ attempt)"

section \<open>The extraction as the specification words it\<close>

text \<open>
  The specification's wording of the fallback: the first balanced \<open>{...}\<close> span, found by
  counting braces. \<open>scan_balanced depth acc s\<close> reads \<open>s\<close> with \<open>depth\<close> braces open and the
  span read so far reversed in \<open>acc\<close>; \<open>first_balanced_span\<close> tries each \<open>{\<close> from the left.
\<close>

fun scan_balanced :: "nat \<Rightarrow> string \<Rightarrow> string \<Rightarrow> string option" where
  "scan_balanced depth acc [] = None"
| "scan_balanced depth acc (c # cs) =
     (if c = CHR ''{'' then scan_balanced (Suc depth) (c # acc) cs
      else if c = CHR ''}''
        then (if depth \<le> 1 then Some (rev (c # acc)) else scan_balanced (depth - 1) (c # acc) cs)
      else scan_balanced depth (c # acc) cs)"

fun first_balanced_span :: "string \<Rightarrow> string option" where
  "first_balanced_span [] = None"
| "first_balanced_span (c # cs) =
     (if c = CHR ''{''
      then (case scan_balanced 0 [] (c # cs) of
              Some found \<Rightarrow> Some found
            | None \<Rightarrow> first_balanced_span cs)
      else first_balanced_span cs)"

definition extract_json_spec :: "env \<Rightarrow> string \<Rightarrow> exn + json" where
  "extract_json_spec E content =
     (case loads E (strip content) of
        Inr data \<Rightarrow> Inr data
      | Inl _ \<Rightarrow>
          (case first_balanced_span content of
             Some found \<Rightarrow> (case loads E found of Inr data \<Rightarrow> Inr data | Inl m \<Rightarrow> Inl (JSONDecodeError m))
           | None \<Rightarrow> Inl (ValueError ''No valid JSON found in response'')))"

section \<open>A concrete environment\<close>

text \<open>
  For runs on concrete inputs: \<open>json.loads\<close> as a table of the texts that occur with the values
  they denote (every other text is not JSON, and the message of the error is the same for
  all), exact \<open>float\<close> of an int, exact float sum and
  product, no jitter, whitespace tokenization, no stop words, no stemming.
\<close>

definition loads_table :: "(string \<times> json) list \<Rightarrow> string \<Rightarrow> string + json" where
  "loads_table table s = (case map_of table s of Some v \<Rightarrow> Inr v | None \<Rightarrow> Inl ''Expecting value'')"

definition test_env :: "(nat \<Rightarrow> exn + response) \<Rightarrow> (string \<times> json) list \<Rightarrow> env" where
  "test_env prov table =
     \<lparr>provider = prov, uniform = (\<lambda>n. 0), loads = loads_table table,
      float_of_int = (\<lambda>i. Inr (Fin (of_int i))),
      float_of_str = (\<lambda>s. Inl (ValueError ''could not convert string to float'')),
      float_add = (\<lambda>x y. x + y), float_mul = (\<lambda>x y. Fin (x * y)),
      word_tokenize = split_ws, stop_words = {}, stem = (\<lambda>x. x), lemmatize = (\<lambda>x. x)\<rparr>"

definition empty_world :: world where
  "empty_world = \<lparr>files = Map.empty, posts = 0, draws = 0, sleeps = []\<rparr>"

text \<open>
  The body of a provider response of status 200 whose message content is \<open>content\<close>, and the
  value it denotes.
\<close>

definition escape_json :: "string \<Rightarrow> string" where
  "escape_json s =
     concat (map (\<lambda>c. if c = CHR 0x22 \<or> c = CHR 0x5C then [CHR 0x5C, c]
                         else if c = CHR 0x0A then [CHR 0x5C, CHR ''n''] else [c]) s)"

definition chat_body :: "string \<Rightarrow> string" where
  \<open>chat_body content = ''{"choices": [{"message": {"content": "'' @ escape_json content @ ''"}}]}''\<close>

definition chat_value :: "string \<Rightarrow> json" where
  "chat_value content =
     JDict [(''choices'', JList [JDict [(''message'', JDict [(''content'', JStr content)])]])]"

definition chat_reply :: "string \<Rightarrow> exn + response" where
  "chat_reply content = Inr \<lparr>status_code = 200, resp_text = chat_body content\<rparr>"

text \<open>A provider that answers every call with a list of two competitors.\<close>

definition shop_content :: string where
  \<open>shop_content = ''{"similar_ideas": [{"idea_name": "ShopEasy", "idea_description": "Online store builder for local retail"}, {"idea_name": "TutorLink", "idea_description": "Connects students with tutors"}]}''\<close>

definition shop_parsed :: json where
  "shop_parsed =
     JDict [(''similar_ideas'', JList
       [JDict [(''idea_name'', JStr ''ShopEasy''),
               (''idea_description'', JStr ''Online store builder for local retail'')],
        JDict [(''idea_name'', JStr ''TutorLink''),
               (''idea_description'', JStr ''Connects students with tutors'')]])]"

definition shop_env :: env where
  "shop_env = test_env (\<lambda>n. chat_reply shop_content)
     [(chat_body shop_content, chat_value shop_content), (shop_content, shop_parsed)]"

text \<open>A provider that answers every call with status 500.\<close>

definition broken_env :: env where
  "broken_env = test_env (\<lambda>n. Inr \<lparr>status_code = 500, resp_text = ''oops''\<rparr>) []"

text \<open>
  A provider whose answers fail in five ways: a blank message content, a content without
  JSON, a transport failure, a rate limit, and from then on a JSON whose only entry has no
  description. A provider that is rate limited once and then answers with the two competitors.
  A provider that fails in transport, is rate limited, and from then on answers with status
  503.
\<close>

definition prose_content :: string where
  "prose_content = ''Sorry, {no JSON} here''"

definition nameless_content :: string where
  \<open>nameless_content = ''{"similar_ideas": [{"idea_name": "NoDescription"}]}''\<close>

definition nameless_parsed :: json where
  "nameless_parsed = JDict [(''similar_ideas'', JList [JDict [(''idea_name'', JStr ''NoDescription'')]])]"

definition kinds_env :: env where
  "kinds_env = test_env
     (\<lambda>n. if n = 0 then chat_reply ''   ''
          else if n = 1 then chat_reply prose_content
          else if n = 2 then Inl (RequestException ''Connection timed out'')
          else if n = 3 then Inr \<lparr>status_code = 429, resp_text = ''slow down''\<rparr>
          else chat_reply nameless_content)
     [(chat_body ''   '', chat_value ''   ''), (chat_body prose_content, chat_value prose_content),
      (chat_body nameless_content, chat_value nameless_content),
      (nameless_content, nameless_parsed)]"

definition recover_env :: env where
  "recover_env = test_env
     (\<lambda>n. if n = 0 then Inr \<lparr>status_code = 429, resp_text = ''slow down''\<rparr>
          else chat_reply shop_content)
     [(chat_body shop_content, chat_value shop_content), (shop_content, shop_parsed)]"


text \<open>A world that holds one idea file.\<close>

definition idea_world :: world where
  "idea_world = empty_world\<lparr>files := [''idea.txt'' \<mapsto> TextFile ''app connect tutor student'']\<rparr>"

text \<open>
  A model answer that scores the six dimensions with 5 and adds a seventh entry, with the
  aggregate it reports.
\<close>

definition scores_content :: string where
  \<open>scores_content = ''{"validation_scores": {"uniqueness": 5, "feasibility": 5, "market_trend": 5, "scalability": 5, "problem_relevance": 5, "user_adoption_potential": 5, "innovation": 9}, "overall_score": 30}''\<close>

definition scores_parsed :: json where
  "scores_parsed =
     JDict [(''validation_scores'', JDict
               [(''uniqueness'', JInt 5), (''feasibility'', JInt 5), (''market_trend'', JInt 5),
                (''scalability'', JInt 5), (''problem_relevance'', JInt 5),
                (''user_adoption_potential'', JInt 5), (''innovation'', JInt 9)]),
            (''overall_score'', JInt 30)]"

definition scores_env :: env where
  "scores_env = test_env (\<lambda>n. chat_reply scores_content)
     [(chat_body scores_content, chat_value scores_content), (scores_content, scores_parsed)]"

text \<open>A model answer with exactly the six dimensions, two of them not whole numbers.\<close>

definition six_content :: string where
  \<open>six_content = ''{"validation_scores": {"uniqueness": 6.5, "feasibility": 7, "market_trend": 7.5, "scalability": 8, "problem_relevance": 9, "user_adoption_potential": 10}, "overall_score": 100}''\<close>

definition six_parsed :: json where
  "six_parsed =
     JDict [(''validation_scores'', JDict
               [(''uniqueness'', JFloat (Fin (13 / 2))), (''feasibility'', JInt 7),
                (''market_trend'', JFloat (Fin (15 / 2))), (''scalability'', JInt 8),
                (''problem_relevance'', JInt 9), (''user_adoption_potential'', JInt 10)]),
            (''overall_score'', JInt 100)]"

definition six_env :: env where
  "six_env = test_env (\<lambda>n. chat_reply six_content)
     [(chat_body six_content, chat_value six_content), (six_content, six_parsed)]"

text \<open>
  A provider that is never reached, a world that holds one raw text file, and a provider that
  answers every call with a blank message content.
\<close>

definition offline_env :: env where
  "offline_env = test_env (\<lambda>n. Inl (RequestException ''Connection refused'')) []"

definition raw_world :: world where
  "raw_world = empty_world\<lparr>files := [''idea.txt'' \<mapsto> TextFile ''An App, connecting Tutors & Students!'']\<rparr>"

definition blank_env :: env where
  "blank_env = test_env (\<lambda>n. chat_reply ''   '') [(chat_body ''   '', chat_value ''   '')]"

section \<open>Properties of the deduplication (IdeaEnhancer)\<close>

lemma foldl_dedup_seen:
  "seen_content st = set (unique_sections st) \<Longrightarrow>
   seen_content (foldl dedup_step st xs) = set (unique_sections (foldl dedup_step st xs))"
  by (induction xs arbitrary: st) (auto simp: dedup_step_def Let_def)

lemma dedup_seen: "seen_content (foldl dedup_step dedup_init xs) = set (dedup xs)"
  unfolding dedup_def by (rule foldl_dedup_seen) (simp add: dedup_init_def)

lemma dedup_Nil: "dedup [] = []"
  by (simp add: dedup_def dedup_init_def)

lemma dedup_snoc:
  "dedup (pre @ [s]) =
     (if \<exists>k \<in> set (dedup pre). near_duplicate s k then dedup pre else dedup pre @ [s])"
  using dedup_seen [of pre] by (simp add: dedup_def dedup_step_def Let_def)

lemma dedup_prefix: "prefix (dedup pre) (dedup (pre @ rest))"
proof (induction rest rule: rev_induct)
  case Nil
  show ?case by simp
next
  case (snoc x xs)
  have "prefix (dedup (pre @ xs)) (dedup ((pre @ xs) @ [x]))"
    by (simp only: dedup_snoc split: if_split) simp
  with snoc show ?case by (metis append_assoc prefix_order.order_trans)
qed

lemma dedup_subseq: "subseq (dedup xs) xs"
proof (induction xs rule: rev_induct)
  case Nil
  show ?case by (simp add: dedup_Nil)
next
  case (snoc x xs)
  have "subseq (dedup xs) (xs @ [x])"
    using snoc by (metis list_emb_append_mono list_emb_Nil append_Nil2)
  moreover have "subseq (dedup xs @ [x]) (xs @ [x])"
    using snoc by (simp add: list_emb_append_mono)
  ultimately show ?case by (simp add: dedup_snoc)
qed

lemma split_ws_lower_Nil: "set (split_ws (lower [])) = {}"
  by (simp add: split_ws_def lower_def)

lemma similarity_score_threshold:
  "7 / 10 < similarity_score s k \<longleftrightarrow>
   7 * card (set (split_ws (lower s)) \<union> set (split_ws (lower k)))
     < 10 * card (set (split_ws (lower s)) \<inter> set (split_ws (lower k)))"
proof -
  define I where "I = card (set (split_ws (lower s)) \<inter> set (split_ws (lower k)))"
  define U where "U = card (set (split_ws (lower s)) \<union> set (split_ws (lower k)))"
  have le: "I \<le> U" unfolding I_def U_def by (rule card_mono) auto
  have empty: "I = 0" if "s = [] \<or> k = []"
    using that split_ws_lower_Nil unfolding I_def by auto
  have score: "similarity_score s k =
      (if s = [] \<or> k = [] then 0 else if 0 < U then of_nat I / of_nat U else 0)"
    unfolding I_def U_def by (simp add: similarity_score_def Let_def)
  have "7 / 10 < similarity_score s k \<longleftrightarrow> 7 * U < 10 * I"
  proof (cases "s = [] \<or> k = [] \<or> U = 0")
    case True
    then have "I = 0" using empty le by auto
    moreover from True have "similarity_score s k = 0" by (auto simp: score)
    ultimately show ?thesis by simp
  next
    case False
    then have pos: "(0::rat) < of_nat U" by simp
    from False have "similarity_score s k = of_nat I / of_nat U" by (simp add: score)
    moreover have "7 / 10 < (of_nat I :: rat) / of_nat U \<longleftrightarrow> 7 / 10 * of_nat U < (of_nat I :: rat)"
      using pos by (simp only: pos_less_divide_eq)
    moreover have "7 / 10 * of_nat U < (of_nat I :: rat) \<longleftrightarrow> (of_nat (7 * U) :: rat) < of_nat (10 * I)"
      by (simp add: mult.commute)
    moreover have "(of_nat (7 * U) :: rat) < of_nat (10 * I) \<longleftrightarrow> 7 * U < 10 * I"
      by (simp only: of_nat_less_iff)
    ultimately show ?thesis by simp
  qed
  then show ?thesis unfolding I_def U_def .
qed

lemma near_duplicate_jaccard:
  "near_duplicate s k \<longleftrightarrow>
     sublist (lower s) (lower k) \<or> sublist (lower k) (lower s)
     \<or> 7 * card (set (split_ws (lower s)) \<union> set (split_ws (lower k)))
         < 10 * card (set (split_ws (lower s)) \<inter> set (split_ws (lower k)))"
  by (simp only: near_duplicate_def similarity_score_threshold)

text \<open>
  C7. The sections are processed in order. A section \<open>s\<close> that comes after the sections \<open>pre\<close>
  is dropped if and only if some section \<open>k\<close> kept from \<open>pre\<close> contains it, or is contained in
  it, as a case-insensitive substring, or has a word-set Jaccard similarity above 0.70 with
  it: with \<open>I\<close> and \<open>U\<close> the numbers of distinct lowercased words that the two sections have in
  common and in all, \<open>I / U > 0.70\<close>, that is \<open>7 * U < 10 * I\<close>. Otherwise it is appended to the
  kept ones. What has been kept stays kept, in the same place, whatever follows, and the kept
  sections are a subsequence of the input: first-seen order, no re-ordering.
\<close>

theorem dedup_first_seen_order:
  "dedup (pre @ [s]) =
     (if \<exists>k \<in> set (dedup pre).
           sublist (lower s) (lower k) \<or> sublist (lower k) (lower s)
         \<or> 7 * card (set (split_ws (lower s)) \<union> set (split_ws (lower k)))
             < 10 * card (set (split_ws (lower s)) \<inter> set (split_ws (lower k)))
      then dedup pre else dedup pre @ [s])
   \<and> prefix (dedup pre) (dedup (pre @ rest))
   \<and> subseq (dedup secs) secs"
  using dedup_snoc [of pre s] dedup_prefix [of pre rest] dedup_subseq [of secs]
  by (simp add: near_duplicate_jaccard)

lemma dedup_run_one:
  "dedup [''Add AI chat support for users today''] = [''Add AI chat support for users today'']"
  by code_simp

lemma dedup_run_jaccard:
  "\<not> sublist (lower ''Today add AI chat support for all users'')
         (lower ''Add AI chat support for users today'')
   \<and> \<not> sublist (lower ''Add AI chat support for users today'')
         (lower ''Today add AI chat support for all users'')
   \<and> card (set (split_ws (lower ''Today add AI chat support for all users''))
           \<union> set (split_ws (lower ''Add AI chat support for users today''))) = 8
   \<and> card (set (split_ws (lower ''Today add AI chat support for all users''))
           \<inter> set (split_ws (lower ''Add AI chat support for users today''))) = 7"
  by code_simp

lemma dedup_run_distinct:
  "\<not> sublist (lower ''Add AI chat for tutors'') (lower ''Add AI chat support for users today'')
   \<and> \<not> sublist (lower ''Add AI chat support for users today'') (lower ''Add AI chat for tutors'')
   \<and> card (set (split_ws (lower ''Add AI chat for tutors''))
           \<union> set (split_ws (lower ''Add AI chat support for users today''))) = 8
   \<and> card (set (split_ws (lower ''Add AI chat for tutors''))
           \<inter> set (split_ws (lower ''Add AI chat support for users today''))) = 4"
  by code_simp

theorem dedup_first_seen_order_witness:
  "dedup ([''Add AI chat support for users today'']
            @ [''Today add AI chat support for all users''])
     = [''Add AI chat support for users today'']
   \<and> dedup ([''Add AI chat support for users today''] @ [''Add AI chat for tutors''])
     = [''Add AI chat support for users today'', ''Add AI chat for tutors'']
   \<and> prefix (dedup [''Add AI chat support for users today''])
        (dedup ([''Add AI chat support for users today'']
                  @ [''Today add AI chat support for all users'']))
   \<and> subseq (dedup [''Add AI chat support for users today'',
                     ''Today add AI chat support for all users''])
        [''Add AI chat support for users today'', ''Today add AI chat support for all users'']"
proof -
  from dedup_first_seen_order [of "[''Add AI chat support for users today'']"
      "''Today add AI chat support for all users''"
      "[''Today add AI chat support for all users'']"
      "[''Add AI chat support for users today'', ''Today add AI chat support for all users'']"]
  have dropped: "dedup ([''Add AI chat support for users today'']
            @ [''Today add AI chat support for all users''])
     = [''Add AI chat support for users today'']
   \<and> prefix (dedup [''Add AI chat support for users today''])
        (dedup ([''Add AI chat support for users today'']
                  @ [''Today add AI chat support for all users'']))
   \<and> subseq (dedup [''Add AI chat support for users today'',
                     ''Today add AI chat support for all users''])
        [''Add AI chat support for users today'', ''Today add AI chat support for all users'']"
    by (simp add: dedup_run_one dedup_run_jaccard)
  from dedup_first_seen_order [of "[''Add AI chat support for users today'']"
      "''Add AI chat for tutors''" "[]" "[]"]
  have "dedup ([''Add AI chat support for users today''] @ [''Add AI chat for tutors''])
     = [''Add AI chat support for users today'', ''Add AI chat for tutors'']"
    by (simp add: dedup_run_one dedup_run_distinct)
  with dropped show ?thesis by (simp add: dedup_run_one)
qed

text \<open>
  C8, as stated: the second section is dropped. It is not: after the cleaning, which removes
  the hyphen of the first section, both sections are kept.
\<close>

theorem example_sections_second_dropped_counterexample:
  "postprocess 
      ''Focus on local sellers with same-day delivery\<newline>\<newline>Focus on local sellers with same day delivery and marketing''
   \<noteq> ''Focus on local sellers with sameday delivery''"
  by code_simp

text \<open>
  C8, amended. The two sections share 6 of 11 distinct words, so their Jaccard similarity is
  6/11, not above 0.7, and neither contains the other: the post-processing keeps both, in
  order, separated by a blank line.
\<close>

theorem example_sections_both_kept:
  "postprocess 
      ''Focus on local sellers with same-day delivery\<newline>\<newline>Focus on local sellers with same day delivery and marketing''
   = ''Focus on local sellers with sameday delivery\<newline>\<newline>Focus on local sellers with same day delivery and marketing''
   \<and> similarity_score ''Focus on local sellers with sameday delivery''
        ''Focus on local sellers with same day delivery and marketing'' = 6 / 11
   \<and> similarity_score ''Focus on local sellers with same-day delivery''
        ''Focus on local sellers with same day delivery and marketing'' = 6 / 11
   \<and> \<not> near_duplicate ''Focus on local sellers with same day delivery and marketing''
          ''Focus on local sellers with sameday delivery''"
  by code_simp

section \<open>Properties of the suggestion structuring (MainAgent)\<close>

lemma enumerate_nth_upt: "enumerate 0 xs = map (\<lambda>i. (i, xs ! i)) [0..<length xs]"
proof (rule nth_equalityI)
  show "length (enumerate 0 xs) = length (map (\<lambda>i. (i, xs ! i)) [0..<length xs])"
    by simp
next
  fix i
  assume "i < length (enumerate 0 xs)"
  then show "enumerate 0 xs ! i = map (\<lambda>i. (i, xs ! i)) [0..<length xs] ! i"
    by (simp add: nth_enumerate_eq)
qed

lemma structure_suggestions_by_index:
  "structure_suggestions t =
     map (\<lambda>i. suggestion_item (suggestions_list t ! i) (priority_of i))
       (filter (\<lambda>i. suggestions_list t ! i \<noteq> []) [0..<length (suggestions_list t)])"
  by (simp add: structure_suggestions_def enumerate_nth_upt filter_map comp_def)

lemma filter_upt_all: "\<forall>i < n. P i \<Longrightarrow> filter P [0..<n] = [0..<n]"
  by (rule filter_True) simp

text \<open>
  C9, as stated: the items at positions 0 and 1 of the produced list get "high". The text
  below is what \<open>enhance_idea\<close> returns for the model output \<open>1. 1.\<close>, \<open>1. 3.\<close>, \<open>Do X\<close> (three
  sections); the only item produced, at position 0, has priority "medium".
\<close>

theorem priority_by_output_position_counterexample:
  "postprocess ''1. 1.\<newline>\<newline>1. 3.\<newline>\<newline>Do X''
     = ''1.\<newline>\<newline>3.\<newline>\<newline>Do X''
   \<and> structure_suggestions ''1.\<newline>\<newline>3.\<newline>\<newline>Do X''
     = [suggestion_item ''Do X'' ''medium'']"
  by code_simp

text \<open>
  C9, amended. The priority of an item is determined solely by the index \<open>i\<close> of its entry in
  \<open>suggestions_list\<close>, the stripped non-blank lines of the suggestion text: "high" for 0 and 1,
  "medium" for 2 and 3, "low" after, whatever the text of the suggestion. The items produced
  are the non-empty entries in order, each with the priority of its own index; an entry that
  is empty once its numbering is removed produces no item and still counts. So when no entry
  is empty, the item at position \<open>j\<close> of the produced list has the priority of \<open>j\<close>.
\<close>

theorem priority_by_entry_index:
  "structure_suggestions t =
     map (\<lambda>i. suggestion_item (suggestions_list t ! i)
                 (if i < 2 then ''high'' else if i < 4 then ''medium'' else ''low''))
       (filter (\<lambda>i. suggestions_list t ! i \<noteq> []) [0..<length (suggestions_list t)])
   \<and> ((\<forall>s \<in> set (suggestions_list t). s \<noteq> []) \<longrightarrow>
        length (structure_suggestions t) = length (suggestions_list t)
        \<and> (\<forall>j < length (suggestions_list t).
              structure_suggestions t ! j =
                suggestion_item (suggestions_list t ! j)
                  (if j < 2 then ''high'' else if j < 4 then ''medium'' else ''low'')))"
proof (intro conjI impI)
  show "structure_suggestions t =
     map (\<lambda>i. suggestion_item (suggestions_list t ! i)
                 (if i < 2 then ''high'' else if i < 4 then ''medium'' else ''low''))
       (filter (\<lambda>i. suggestions_list t ! i \<noteq> []) [0..<length (suggestions_list t)])"
    using structure_suggestions_by_index [of t] by (simp add: priority_of_def)
next
  assume ne: "\<forall>s \<in> set (suggestions_list t). s \<noteq> []"
  then have "\<forall>i < length (suggestions_list t). suggestions_list t ! i \<noteq> []"
    by simp
  then have all: "filter (\<lambda>i. suggestions_list t ! i \<noteq> []) [0..<length (suggestions_list t)]
      = [0..<length (suggestions_list t)]"
    by (rule filter_upt_all)
  show "length (structure_suggestions t) = length (suggestions_list t)"
    by (simp add: structure_suggestions_by_index all)
  show "\<forall>j < length (suggestions_list t).
              structure_suggestions t ! j =
                suggestion_item (suggestions_list t ! j)
                  (if j < 2 then ''high'' else if j < 4 then ''medium'' else ''low'')"
    by (simp add: structure_suggestions_by_index all priority_of_def)
qed

lemma suggestions_list_run:
  "suggestions_list ''1. Add chat\<newline>2. Add search'' = [''Add chat'', ''Add search'']"
  by code_simp

theorem priority_by_entry_index_witness:
  "[] \<notin> set (suggestions_list ''1. Add chat\<newline>2. Add search'')
   \<and> length (structure_suggestions ''1. Add chat\<newline>2. Add search'') = 2
   \<and> structure_suggestions ''1. Add chat\<newline>2. Add search'' ! 1
       = suggestion_item ''Add search'' ''high''"
proof -
  have ne: "\<forall>s \<in> set (suggestions_list ''1. Add chat\<newline>2. Add search''). s \<noteq> []"
    by (simp add: suggestions_list_run)
  with priority_by_entry_index [of "''1. Add chat\<newline>2. Add search''"]
  have "length (structure_suggestions ''1. Add chat\<newline>2. Add search'')
          = length (suggestions_list ''1. Add chat\<newline>2. Add search'')
        \<and> (\<forall>j < length (suggestions_list ''1. Add chat\<newline>2. Add search'').
              structure_suggestions ''1. Add chat\<newline>2. Add search'' ! j =
                suggestion_item (suggestions_list ''1. Add chat\<newline>2. Add search'' ! j)
                  (if j < 2 then ''high'' else if j < 4 then ''medium'' else ''low''))"
    by blast
  then show ?thesis
    by (simp add: suggestions_list_run)
qed

section \<open>Properties of the similarity score (ScraperAgent)\<close>

lemma round_half_even_of_int: "round_half_even (of_int k) = k"
  by (simp add: round_half_even_def)

lemma round_half_even_le: "x \<le> of_int k \<Longrightarrow> round_half_even x \<le> k"
proof (cases "x = of_int k")
  case True
  then show ?thesis by (simp add: round_half_even_of_int)
next
  case False
  assume "x \<le> of_int k"
  with False have "x < of_int k" by simp
  then have "\<lfloor>x\<rfloor> < k" by (simp add: floor_less_iff)
  then show ?thesis by (simp add: round_half_even_def Let_def)
qed

lemma round_half_even_ge: "of_int k \<le> x \<Longrightarrow> k \<le> round_half_even x"
proof -
  assume "of_int k \<le> x"
  then have "k \<le> \<lfloor>x\<rfloor>" by (simp add: le_floor_iff)
  then show ?thesis by (simp add: round_half_even_def Let_def)
qed

lemma round_clamp:
  "round_half_even (max 1 (min 100 x)) = max 1 (min 100 (round_half_even x))"
proof -
  consider "x \<le> 1" | "1 < x" "x < 100" | "100 \<le> x" by linarith
  then show ?thesis
  proof cases
    case 1
    then have "round_half_even x \<le> 1" using round_half_even_le [of x 1] by simp
    moreover have "max 1 (min 100 x) = 1" using 1 by simp
    moreover have "round_half_even (1::rat) = 1" using round_half_even_of_int [of 1] by simp
    ultimately show ?thesis by simp
  next
    case 2
    then have "1 \<le> round_half_even x" "round_half_even x \<le> 100"
      using round_half_even_ge [of 1 x] round_half_even_le [of x 100] by simp_all
    moreover have "max 1 (min 100 x) = x" using 2 by simp
    ultimately show ?thesis by simp
  next
    case 3
    then have "100 \<le> round_half_even x" using round_half_even_ge [of 100 x] by simp
    moreover have "max 1 (min 100 x) = 100" using 3 by simp
    moreover have "round_half_even (100::rat) = 100" using round_half_even_of_int [of 100] by simp
    ultimately show ?thesis by simp
  qed
qed

lemma similarity_clamp:
  "similarity E i u =
     max 1 (min 100 (round_half_even (float_add E (of_int (max (85 - 10 * int i) 25)) u)))"
  by (simp add: similarity_def base_similarity_def round_clamp mult.commute)

lemma enrich_similarity:
  "enrich E i ideas n = (Inr out, n') \<Longrightarrow>
   length out = length ideas \<and>
   (\<forall>j < length ideas.
      getitem (out ! j) ''similarity'' = Inr (JInt (similarity E (i + j) (uniform E (n + j)))))"
proof (induction ideas arbitrary: i n out)
  case Nil
  then show ?case by simp
next
  case (Cons idea rest)
  from Cons.prems obtain d description tl_out where
    idea: "idea = JDict d" and
    desc: "dict_get (AList.update ''similarity'' (JInt (similarity E i (uniform E n))) d)
             ''idea_description'' JNull = JStr description" and
    rec: "enrich E (Suc i) rest (Suc n) = (Inr tl_out, n')" and
    out: "out = JDict (AList.update ''category''
             (dict_get (AList.update ''similarity'' (JInt (similarity E i (uniform E n))) d)
                ''category'' (JStr (get_category description)))
             (AList.update ''similarity'' (JInt (similarity E i (uniform E n))) d)) # tl_out"
    by (auto simp: Let_def split: json.splits prod.splits sum.splits)
  from Cons.IH [OF rec] have len: "length tl_out = length rest" and
    ih: "\<forall>j < length rest. getitem (tl_out ! j) ''similarity''
           = Inr (JInt (similarity E (Suc i + j) (uniform E (Suc n + j))))"
    by simp_all
  have hd: "getitem (out ! 0) ''similarity'' = Inr (JInt (similarity E i (uniform E n)))"
    by (simp add: out update_conv')
  show ?case
  proof (intro conjI allI impI)
    show "length out = length (idea # rest)" by (simp add: out len)
  next
    fix j
    assume "j < length (idea # rest)"
    then show "getitem (out ! j) ''similarity''
                 = Inr (JInt (similarity E (i + j) (uniform E (n + j))))"
    proof (cases j)
      case 0
      with hd show ?thesis by simp
    next
      case (Suc k)
      with \<open>j < length (idea # rest)\<close> have "k < length rest" by simp
      with ih have "getitem (tl_out ! k) ''similarity''
                 = Inr (JInt (similarity E (Suc i + k) (uniform E (Suc n + k))))" by simp
      with Suc show ?thesis by (simp add: out)
    qed
  qed
qed

lemma scraper_process_ideas:
  assumes "scraper_process E response n = (Inr out, n')"
  shows "\<exists>ideas. getitem out ''similar_ideas'' = Inr (JList ideas) \<and> ideas \<noteq> [] \<and>
           (\<forall>i < length ideas.
              getitem (ideas ! i) ''similarity'' = Inr (JInt (similarity E i (uniform E (n + i)))))"
proof -
  from assms obtain data2 valid_ideas enriched where
    ne: "valid_ideas \<noteq> []" and
    en: "enrich E 0 valid_ideas n = (Inr enriched, n')" and
    out: "out = JDict (AList.update ''similar_ideas'' (JList enriched) data2)"
    by (auto simp: scraper_process_def split: sum.splits prod.splits if_splits)
  from enrich_similarity [OF en] have len: "length enriched = length valid_ideas" and
    sims: "\<forall>j < length valid_ideas.
      getitem (enriched ! j) ''similarity'' = Inr (JInt (similarity E (0 + j) (uniform E (n + j))))"
    by simp_all
  have "getitem out ''similar_ideas'' = Inr (JList enriched)"
    by (simp add: out update_conv')
  moreover have "enriched \<noteq> []" using ne len by auto
  ultimately show ?thesis using sims len by auto
qed

lemma scraper_failure_ideas: "getitem (scraper_failure m e) ''similar_ideas'' = Inr (JList [])"
  by (simp add: scraper_failure_def)

lemma scraper_loop_ideas:
  "scraper_loop E m attempts last_error w = (out, w') \<Longrightarrow>
   \<exists>ideas n. getitem out ''similar_ideas'' = Inr (JList ideas) \<and>
     (\<forall>i < length ideas.
        getitem (ideas ! i) ''similarity'' = Inr (JInt (similarity E i (uniform E (n + i)))))"
proof (induction attempts arbitrary: last_error w)
  case Nil
  then show ?case using scraper_failure_ideas [of m last_error] by auto
next
  case (Cons attempt rest)
  show ?case
  proof (cases "post E w")
    case (Pair r w1)
    show ?thesis
    proof (cases r)
      case (Inl e)
      with Pair Cons.prems have
        "scraper_loop E m rest (Some (str_exn e)) (backoff m attempt 1 w1) = (out, w')"
        by simp
      then show ?thesis by (rule Cons.IH)
    next
      case (Inr response)
      consider (ok) "status_code response = 200"
        | (limit) "status_code response \<noteq> 200" "status_code response = 429"
        | (other) "status_code response \<noteq> 200" "status_code response \<noteq> 429" by blast
      then show ?thesis
      proof cases
        case ok
        obtain r2 n2 where sp: "scraper_process E response (draws w1) = (r2, n2)"
          by (cases "scraper_process E response (draws w1)")
        show ?thesis
        proof (cases r2)
          case (Inl e)
          with Pair Inr ok sp Cons.prems have
            "scraper_loop E m rest (Some (str_exn e))
               (backoff m attempt (2 ^ attempt) (w1\<lparr>draws := n2\<rparr>)) = (out, w')"
            by simp
          then show ?thesis by (rule Cons.IH)
        next
          case (Inr res)
          with Pair \<open>r = Inr response\<close> ok sp Cons.prems have "out = res" by simp
          with sp Inr scraper_process_ideas [of E response "draws w1" out n2]
          show ?thesis by blast
        qed
      next
        case limit
        with Pair Inr Cons.prems have
          "scraper_loop E m rest (Some ''Rate limit exceeded'')
             (backoff m attempt (2 ^ attempt) w1) = (out, w')"
          by simp
        then show ?thesis by (rule Cons.IH)
      next
        case other
        with Pair Inr Cons.prems have "\<exists>e. out = scraper_failure m e" by auto
        then show ?thesis using scraper_failure_ideas by fastforce
      qed
    qed
  qed
qed

text \<open>
  C6. Whatever \<open>ScraperAgent.query_mistral\<close> returns has a list \<open>similar_ideas\<close>, and the entry
  at index \<open>i\<close> of that list carries the similarity
  \<open>clamp(1, 100, round(max(85 - 10*i, 25) + u))\<close>, where \<open>u\<close> is the jitter drawn for that entry
  (the draws of one answer are consecutive) and the sum is the float sum; so every emitted
  similarity lies in [1, 100]. The code clamps before it rounds; the bounds being integers,
  that is the same value.
\<close>

theorem emitted_similarity:
  assumes "scraper_query_mistral E max_retries w = (out, w')"
  shows "\<exists>ideas n. getitem out ''similar_ideas'' = Inr (JList ideas) \<and>
     (\<forall>i < length ideas. \<exists>s.
        getitem (ideas ! i) ''similarity'' = Inr (JInt s) \<and>
        s = max 1 (min 100 (round_half_even
              (float_add E (of_int (max (85 - 10 * int i) 25)) (uniform E (n + i))))) \<and>
        1 \<le> s \<and> s \<le> 100)"
proof -
  from assms obtain ideas n where
    ideas: "getitem out ''similar_ideas'' = Inr (JList ideas)" and
    sims: "\<forall>i < length ideas.
        getitem (ideas ! i) ''similarity'' = Inr (JInt (similarity E i (uniform E (n + i))))"
    unfolding scraper_query_mistral_def using scraper_loop_ideas by blast
  have "\<forall>i < length ideas. \<exists>s.
        getitem (ideas ! i) ''similarity'' = Inr (JInt s) \<and>
        s = max 1 (min 100 (round_half_even
              (float_add E (of_int (max (85 - 10 * int i) 25)) (uniform E (n + i))))) \<and>
        1 \<le> s \<and> s \<le> 100"
    using sims by (simp add: similarity_clamp)
  with ideas show ?thesis by blast
qed

lemma shop_run:
  "fst (scraper_query_mistral shop_env 3 empty_world) =
     JDict [(''similar_ideas'', JList
       [JDict [(''idea_name'', JStr ''ShopEasy''),
               (''idea_description'', JStr ''Online store builder for local retail''),
               (''similarity'', JInt 85), (''category'', JStr ''E-commerce'')],
        JDict [(''idea_name'', JStr ''TutorLink''),
               (''idea_description'', JStr ''Connects students with tutors''),
               (''similarity'', JInt 75), (''category'', JStr ''EdTech'')]])]"
  by code_simp

theorem emitted_similarity_witness:
  "fst (scraper_query_mistral shop_env 3 empty_world) =
     JDict [(''similar_ideas'', JList
       [JDict [(''idea_name'', JStr ''ShopEasy''),
               (''idea_description'', JStr ''Online store builder for local retail''),
               (''similarity'', JInt 85), (''category'', JStr ''E-commerce'')],
        JDict [(''idea_name'', JStr ''TutorLink''),
               (''idea_description'', JStr ''Connects students with tutors''),
               (''similarity'', JInt 75), (''category'', JStr ''EdTech'')]])]
   \<and> (\<exists>ideas n. getitem (fst (scraper_query_mistral shop_env 3 empty_world)) ''similar_ideas''
           = Inr (JList ideas) \<and> length ideas = 2 \<and>
         (\<forall>i < length ideas. \<exists>s.
            getitem (ideas ! i) ''similarity'' = Inr (JInt s) \<and>
            s = max 1 (min 100 (round_half_even
                  (float_add shop_env (of_int (max (85 - 10 * int i) 25)) (uniform shop_env (n + i))))) \<and>
            1 \<le> s \<and> s \<le> 100))"
proof -
  obtain ideas n where
    ideas: "getitem (fst (scraper_query_mistral shop_env 3 empty_world)) ''similar_ideas''
              = Inr (JList ideas)" and
    sims: "\<forall>i < length ideas. \<exists>s.
            getitem (ideas ! i) ''similarity'' = Inr (JInt s) \<and>
            s = max 1 (min 100 (round_half_even
                  (float_add shop_env (of_int (max (85 - 10 * int i) 25)) (uniform shop_env (n + i))))) \<and>
            1 \<le> s \<and> s \<le> 100"
    using emitted_similarity [OF prod.collapse [symmetric]] by blast
  from ideas have "length ideas = 2" by (auto simp: shop_run)
  with ideas sims show ?thesis using shop_run by blast
qed

section \<open>Properties of the retry loops\<close>

lemma posts_backoff [simp]: "posts (backoff m a s w) = posts w"
  by (simp add: backoff_def sleep_def)

lemma sleeps_backoff:
  "sleeps (backoff m a s w) = sleeps w @ (if int a < m - 1 then [s] else [])"
  by (simp add: backoff_def sleep_def)

lemma backoff_world:
  "backoff m a s w = w\<lparr>sleeps := sleeps w @ (if int a < m - 1 then [s] else [])\<rparr>"
  by (simp add: backoff_def sleep_def)

lemma post_outcome: "post E w = (provider E (posts w), w\<lparr>posts := Suc (posts w)\<rparr>)"
  by (simp add: post_def)

lemma upt_0_Suc: "[0..<Suc k] = 0 # map Suc [0..<k]"
  by (simp add: upt_conv_Cons map_Suc_upt del: upt_Suc)

lemma upt_split: "k < n \<Longrightarrow> [0..<n] = [0..<k] @ k # [Suc k..<n]"
proof -
  assume "k < n"
  then have "[0..<n] = [0..<k] @ [k..<n]"
    using upt_add_eq_append [of 0 k "n - k"] by simp
  moreover have "[k..<n] = k # [Suc k..<n]"
    using \<open>k < n\<close> by (rule upt_conv_Cons)
  ultimately show ?thesis by simp
qed

lemma filter_less_upt: "b \<le> n \<Longrightarrow> filter (\<lambda>i. i < b) [0..<n] = [0..<b]"
proof (induction n)
  case 0
  then show ?case by simp
next
  case (Suc n)
  show ?case
  proof (cases "b = Suc n")
    case True
    have "filter (\<lambda>i. i < Suc n) [0..<Suc n] = [0..<Suc n]"
      by (rule filter_True) simp
    with True show ?thesis by simp
  next
    case False
    with Suc.prems have "b \<le> n" by simp
    with Suc.IH show ?thesis by simp
  qed
qed

lemma filter_before_last: "filter (\<lambda>i. int i < m - 1) [0..<nat m] = [0..<nat m - 1]"
proof -
  have "(\<lambda>i. int i < m - 1) = (\<lambda>i. i < nat m - 1)" by (rule ext) linarith
  then show ?thesis using filter_less_upt [of "nat m - 1" "nat m"] by simp
qed

lemma filter_all_before: "k < nat m \<Longrightarrow> filter (\<lambda>i. int i < m - 1) [0..<k] = [0..<k]"
  by (rule filter_True) auto


lemma str_int_5: "str_int 5 = ''5''"
  by code_simp

lemma scraper_loop_posts:
  "scraper_loop E m attempts last_error w = (out, w') \<Longrightarrow>
   posts w \<le> posts w' \<and> posts w' \<le> posts w + length attempts"
proof (induction attempts arbitrary: last_error w)
  case Nil
  then show ?case by simp
next
  case (Cons attempt rest)
  let ?w1 = "w\<lparr>posts := Suc (posts w)\<rparr>"
  from Cons.prems consider
      (again) le v where "scraper_loop E m rest le v = (out, w')" "posts v = Suc (posts w)"
    | (stop) "posts w' = Suc (posts w)"
    by (auto simp: post_outcome split: sum.splits prod.splits if_splits)
  then show ?case
  proof cases
    case again
    from Cons.IH [OF again(1)] again(2) show ?thesis by simp
  next
    case stop
    then show ?thesis by simp
  qed
qed

lemma no_valid_entry_parse:
  assumes "no_valid_entry data0"
  shows "\<exists>data.
    (let data1 = (case data0 of JDict d \<Rightarrow> d | _ \<Rightarrow> [(''similar_ideas'', JList [])]);
         data2 = (if ''similar_ideas'' \<in> set (map fst data1) then data1
                  else AList.update ''similar_ideas'' (JList []) data1)
     in and_then (iterate (dict_get data2 ''similar_ideas'' JNull))
          (\<lambda>ideas. Inr (data2, filter valid_idea ideas))) = Inr (data, [])"
proof (cases data0)
  case (JDict d)
  show ?thesis
  proof (cases "map_of d ''similar_ideas''")
    case None
    then have absent: "''similar_ideas'' \<notin> set (map fst d)"
      by (simp add: map_of_eq_None_iff)
    have "dict_get (AList.update ''similar_ideas'' (JList []) d) ''similar_ideas'' JNull = JList []"
      by (simp add: dict_get_def update_conv')
    with JDict absent show ?thesis by (simp add: and_then_def)
  next
    case (Some v)
    then have present: "''similar_ideas'' \<in> set (map fst d)"
      by (metis map_of_eq_None_iff option.distinct(1) set_map)
    from Some have get: "dict_get d ''similar_ideas'' JNull = v" by (simp add: dict_get_def)
    from assms JDict Some obtain ideas where
      ideas: "iterate v = Inr ideas" and
      none: "list_all (\<lambda>idea. case idea of
                JDict entry \<Rightarrow> \<not> (truthy (dict_get entry ''idea_name'' JNull)
                                \<and> truthy (dict_get entry ''idea_description'' JNull))
              | _ \<Rightarrow> True) ideas"
      by (auto simp: no_valid_entry_def split: sum.splits)
    have "\<not> valid_idea idea" if "idea \<in> set ideas" for idea
      using none that by (cases idea) (auto simp: list_all_iff valid_idea_def)
    then have "filter valid_idea ideas = []" by (simp add: filter_empty_conv)
    with JDict present get ideas show ?thesis by (simp add: and_then_def)
  qed
qed (simp_all add: and_then_def dict_get_def)

lemma retryable_inner:
  assumes status: "status_code response = 200"
    and fails: "retryable_failure E (Inr response) = Some msg"
  shows "\<exists>e. scraper_process E response n = (Inl e, n) \<and> str_exn e = msg"
proof (cases "response_content E response")
  case (Inl e)
  with status fails have "msg = str_exn e" by (simp add: retryable_failure_def)
  moreover from Inl have "scraper_process E response n = (Inl e, n)"
    by (simp add: scraper_process_def scraper_parse_def and_then_def)
  ultimately show ?thesis by simp
next
  case (Inr content)
  show ?thesis
  proof (cases "truthy content")
    case False
    with status fails Inr have "msg = ''Empty response from Mistral API''"
      by (simp add: retryable_failure_def)
    moreover from Inr False have "scraper_process E response n
        = (Inl (ValueError ''Empty response from Mistral API''), n)"
      by (simp add: scraper_process_def scraper_parse_def and_then_def nonblank_def)
    ultimately show ?thesis by simp
  next
    case True
    with status fails Inr obtain s where s: "content = JStr s"
      by (cases content) (simp_all add: retryable_failure_def)
    show ?thesis
    proof (cases "isspace s")
      case blank: True
      with status fails Inr True s have "msg = ''Empty response from Mistral API''"
        by (simp add: retryable_failure_def)
      moreover from Inr True s blank have "scraper_process E response n
          = (Inl (ValueError ''Empty response from Mistral API''), n)"
        by (simp add: scraper_process_def scraper_parse_def and_then_def nonblank_def)
      ultimately show ?thesis by simp
    next
      case filled: False
      with True s have content: "nonblank ''Empty response from Mistral API'' content = Inr s"
        by (simp add: nonblank_def)
      show ?thesis
      proof (cases "extract_json E s")
        case (Inl e)
        with status fails Inr True s filled have "msg = str_exn e"
          by (simp add: retryable_failure_def)
        moreover from Inr content Inl have "scraper_process E response n = (Inl e, n)"
          by (simp add: scraper_process_def scraper_parse_def and_then_def)
        ultimately show ?thesis by simp
      next
        case parsed: (Inr data0)
        with status fails Inr True s filled have
          none: "no_valid_entry data0" and msg: "msg = ''No valid ideas found in response''"
          by (simp_all add: retryable_failure_def split: if_splits)
        from no_valid_entry_parse [OF none] obtain data where
          "scraper_parse E response = Inr (data, [])"
          using Inr content parsed by (auto simp: scraper_parse_def and_then_def)
        then have "scraper_process E response n
            = (Inl (ValueError ''No valid ideas found in response''), n)"
          by (simp add: scraper_process_def)
        with msg show ?thesis by simp
      qed
    qed
  qed
qed

lemma scraper_loop_failure_step:
  assumes "retryable_failure E (provider E (posts w)) = Some msg"
  shows "scraper_loop E m (attempt # rest) last_error w
       = scraper_loop E m rest (Some msg)
           (w\<lparr>posts := Suc (posts w),
              sleeps := sleeps w @ (if int attempt < m - 1
                                    then [retry_delay (provider E (posts w)) attempt] else [])\<rparr>)"
proof (cases "provider E (posts w)")
  case (Inl e)
  with assms have msg: "msg = str_exn e" by (simp add: retryable_failure_def)
  show ?thesis
    by (simp add: post_outcome Inl msg backoff_world retry_delay_def)
next
  case (Inr response)
  show ?thesis
  proof (cases "status_code response = 200")
    case True
    from retryable_inner [OF True, of E msg "draws w"] assms Inr obtain e where
      "scraper_process E response (draws w) = (Inl e, draws w)" "str_exn e = msg"
      by auto
    then show ?thesis
      by (simp add: post_outcome Inr True backoff_world retry_delay_def)
  next
    case False
    with assms Inr have limit: "status_code response = 429" and msg: "msg = ''Rate limit exceeded''"
      by (auto simp: retryable_failure_def split: if_splits)
    show ?thesis
      by (simp add: post_outcome Inr limit msg backoff_world retry_delay_def)
  qed
qed

lemma scraper_loop_failures:
  assumes "\<forall>i < k. retryable_failure E (provider E (posts w + i)) \<noteq> None"
  shows "scraper_loop E m ([a..<a + k] @ rest) last_error w
       = scraper_loop E m rest
           (if k = 0 then last_error else retryable_failure E (provider E (posts w + (k - 1))))
           (w\<lparr>posts := posts w + k,
              sleeps := sleeps w @ map (\<lambda>i. retry_delay (provider E (posts w + i)) (a + i))
                                     (filter (\<lambda>i. int (a + i) < m - 1) [0..<k])\<rparr>)"
  using assms
proof (induction k arbitrary: a w last_error)
  case 0
  show ?case by (simp del: scraper_loop.simps)
next
  case (Suc k)
  from Suc.prems obtain msg where msg: "retryable_failure E (provider E (posts w)) = Some msg"
    by (metis add.right_neutral not_None_eq zero_less_Suc)
  let ?w1 = "w\<lparr>posts := Suc (posts w),
                sleeps := sleeps w @ (if int a < m - 1
                                      then [retry_delay (provider E (posts w)) a] else [])\<rparr>"
  have later: "\<forall>i < k. retryable_failure E (provider E (posts ?w1 + i)) \<noteq> None"
    using Suc.prems by auto
  have list: "[a..<a + Suc k] = a # [Suc a..<Suc a + k]"
    by (simp add: upt_conv_Cons del: upt_Suc)
  have last: "(if k = 0 then Some msg else retryable_failure E (provider E (posts ?w1 + (k - 1))))
      = retryable_failure E (provider E (posts w + (Suc k - 1)))"
    using msg by (cases k) simp_all
  have world: "?w1\<lparr>posts := posts ?w1 + k,
                  sleeps := sleeps ?w1 @ map (\<lambda>i. retry_delay (provider E (posts ?w1 + i)) (Suc a + i))
                                     (filter (\<lambda>i. int (Suc a + i) < m - 1) [0..<k])\<rparr>
      = w\<lparr>posts := posts w + Suc k,
           sleeps := sleeps w @ map (\<lambda>i. retry_delay (provider E (posts w + i)) (a + i))
                                     (filter (\<lambda>i. int (a + i) < m - 1) [0..<Suc k])\<rparr>"
    unfolding upt_0_Suc by (simp add: filter_map comp_def)
  have "scraper_loop E m ([a..<a + Suc k] @ rest) last_error w
          = scraper_loop E m (a # [Suc a..<Suc a + k] @ rest) last_error w"
    by (simp only: list append_Cons)
  also have "\<dots> = scraper_loop E m ([Suc a..<Suc a + k] @ rest) (Some msg) ?w1"
    using msg by (rule scraper_loop_failure_step)
  also have "\<dots> = scraper_loop E m rest
        (if k = 0 then Some msg else retryable_failure E (provider E (posts ?w1 + (k - 1))))
        (?w1\<lparr>posts := posts ?w1 + k,
              sleeps := sleeps ?w1 @ map (\<lambda>i. retry_delay (provider E (posts ?w1 + i)) (Suc a + i))
                                     (filter (\<lambda>i. int (Suc a + i) < m - 1) [0..<k])\<rparr>)"
    using later by (rule Suc.IH)
  also have "\<dots> = scraper_loop E m rest
        (retryable_failure E (provider E (posts w + (Suc k - 1))))
        (w\<lparr>posts := posts w + Suc k,
           sleeps := sleeps w @ map (\<lambda>i. retry_delay (provider E (posts w + i)) (a + i))
                                     (filter (\<lambda>i. int (a + i) < m - 1) [0..<Suc k])\<rparr>)"
    by (simp only: last world)
  finally show ?case by (simp del: scraper_loop.simps upt_Suc)
qed

section \<open>Properties of the retry loop of the ScraperAgent\<close>

lemma scraper_exhausted:
  assumes "\<forall>i < nat m. retryable_failure E (provider E (posts w + i)) \<noteq> None"
  shows "scraper_query_mistral E m w
       = (scraper_failure m (if nat m = 0 then None
                             else retryable_failure E (provider E (posts w + (nat m - 1)))),
          w\<lparr>posts := posts w + nat m,
            sleeps := sleeps w @ map (\<lambda>i. retry_delay (provider E (posts w + i)) i)
                                   [0..<nat m - 1]\<rparr>)"
  using scraper_loop_failures [OF assms, of m 0 "[]" None]
  by (simp add: scraper_query_mistral_def filter_before_last)

lemma scraper_recovers:
  assumes k: "k < nat m"
    and fails: "\<forall>i < k. retryable_failure E (provider E (posts w + i)) \<noteq> None"
    and resp: "provider E (posts w + k) = Inr response"
    and status: "status_code response = 200"
    and result: "scraper_process E response (draws w) = (Inr result, n)"
  shows "scraper_query_mistral E m w
       = (result,
          w\<lparr>posts := posts w + k + 1, draws := n,
            sleeps := sleeps w @ map (\<lambda>i. retry_delay (provider E (posts w + i)) i) [0..<k]\<rparr>)"
proof -
  let ?wk = "w\<lparr>posts := posts w + k,
               sleeps := sleeps w @ map (\<lambda>i. retry_delay (provider E (posts w + i)) i) [0..<k]\<rparr>"
  let ?le = "if k = 0 then None else retryable_failure E (provider E (posts w + (k - 1)))"
  have "scraper_loop E m ([0..<k] @ k # [Suc k..<nat m]) None w
      = scraper_loop E m (k # [Suc k..<nat m]) ?le ?wk"
    using scraper_loop_failures [OF fails, of m 0 "k # [Suc k..<nat m]" None]
    by (simp add: filter_all_before [OF k] del: scraper_loop.simps)
  also have "\<dots> = (result, ?wk\<lparr>posts := Suc (posts ?wk), draws := n\<rparr>)"
    using resp status result by (simp add: post_outcome)
  finally show ?thesis
    unfolding scraper_query_mistral_def upt_split [OF k] by simp
qed

text \<open>
  C4. \<open>ScraperAgent.query_mistral\<close> makes at most \<open>max_retries\<close> calls. A failed attempt that
  lets the loop go on is one of \<open>retryable_failure\<close>: a transport-level exception of the call,
  status 429, or status 200 with a malformed body, an empty or blank content, a content in
  which no JSON is found even after the repair, or a JSON without a valid entry. When every
  attempt fails in one of these ways, the function makes exactly \<open>max_retries\<close> calls; after
  attempt \<open>i\<close>, unless it is the last one, it sleeps 1 second when the call itself raised and
  \<open>2^i\<close> seconds otherwise, after the last attempt it does not sleep, and nothing else of the
  world changes; it then returns, without raising, the JSON object with an empty
  \<open>similar_ideas\<close> and an \<open>error\<close> that carries the message of the last attempt. When the first
  \<open>k\<close> attempts fail in one of these ways and attempt \<open>k\<close> succeeds, the function makes \<open>k + 1\<close>
  calls, has slept in the same way after each of the \<open>k\<close> failed attempts and not after the
  successful one, and returns the result of that attempt.
\<close>

theorem scraper_retry_policy:
  assumes "scraper_query_mistral E max_retries w = (out, w')"
  shows "posts w' \<le> posts w + nat max_retries
    \<and> ((\<forall>i < nat max_retries. retryable_failure E (provider E (posts w + i)) \<noteq> None) \<longrightarrow>
         w' = w\<lparr>posts := posts w + nat max_retries,
                sleeps := sleeps w @ map (\<lambda>i. case provider E (posts w + i) of
                                                Inl e \<Rightarrow> 1 | Inr response \<Rightarrow> 2 ^ i)
                                       [0..<nat max_retries - 1]\<rparr>
         \<and> out = JDict [(''similar_ideas'', JList []),
                         (''error'', JStr (''Failed to get valid response after ''
                            @ str_int max_retries @ '' attempts. Last error: ''
                            @ str_opt (if nat max_retries = 0 then None
                                       else retryable_failure E
                                              (provider E (posts w + (nat max_retries - 1))))))])
    \<and> (k < nat max_retries
         \<and> (\<forall>i < k. retryable_failure E (provider E (posts w + i)) \<noteq> None)
         \<and> provider E (posts w + k) = Inr response \<and> status_code response = 200
         \<and> scraper_process E response (draws w) = (Inr result, n) \<longrightarrow>
         w' = w\<lparr>posts := posts w + k + 1, draws := n,
                sleeps := sleeps w @ map (\<lambda>i. case provider E (posts w + i) of
                                                Inl e \<Rightarrow> 1 | Inr response \<Rightarrow> 2 ^ i) [0..<k]\<rparr>
         \<and> out = result)"
proof (intro conjI impI)
  from assms show "posts w' \<le> posts w + nat max_retries"
    unfolding scraper_query_mistral_def using scraper_loop_posts by fastforce
next
  assume "\<forall>i < nat max_retries. retryable_failure E (provider E (posts w + i)) \<noteq> None"
  from scraper_exhausted [OF this] assms have
    out: "out = scraper_failure max_retries (if nat max_retries = 0 then None
             else retryable_failure E (provider E (posts w + (nat max_retries - 1))))" and
    world: "w' = w\<lparr>posts := posts w + nat max_retries,
                   sleeps := sleeps w @ map (\<lambda>i. retry_delay (provider E (posts w + i)) i)
                                          [0..<nat max_retries - 1]\<rparr>"
    by simp_all
  from world show "w' = w\<lparr>posts := posts w + nat max_retries,
                sleeps := sleeps w @ map (\<lambda>i. case provider E (posts w + i) of
                                                Inl e \<Rightarrow> 1 | Inr response \<Rightarrow> 2 ^ i)
                                       [0..<nat max_retries - 1]\<rparr>"
    by (simp add: retry_delay_def)
  from out show "out = JDict [(''similar_ideas'', JList []),
                         (''error'', JStr (''Failed to get valid response after ''
                            @ str_int max_retries @ '' attempts. Last error: ''
                            @ str_opt (if nat max_retries = 0 then None
                                       else retryable_failure E
                                              (provider E (posts w + (nat max_retries - 1))))))]"
    by (simp add: scraper_failure_def)
next
  assume a: "k < nat max_retries
         \<and> (\<forall>i < k. retryable_failure E (provider E (posts w + i)) \<noteq> None)
         \<and> provider E (posts w + k) = Inr response \<and> status_code response = 200
         \<and> scraper_process E response (draws w) = (Inr result, n)"
  then have "scraper_query_mistral E max_retries w
       = (result,
          w\<lparr>posts := posts w + k + 1, draws := n,
            sleeps := sleeps w @ map (\<lambda>i. retry_delay (provider E (posts w + i)) i) [0..<k]\<rparr>)"
    using scraper_recovers [of k max_retries E w response result n] by blast
  with assms have
    out: "out = result" and
    world: "w' = w\<lparr>posts := posts w + k + 1, draws := n,
            sleeps := sleeps w @ map (\<lambda>i. retry_delay (provider E (posts w + i)) i) [0..<k]\<rparr>"
    by simp_all
  from world show "w' = w\<lparr>posts := posts w + k + 1, draws := n,
                sleeps := sleeps w @ map (\<lambda>i. case provider E (posts w + i) of
                                                Inl e \<Rightarrow> 1 | Inr response \<Rightarrow> 2 ^ i) [0..<k]\<rparr>"
    by (simp add: retry_delay_def)
  from out show "out = result" .
qed

lemma kinds_messages:
  "map (\<lambda>i. retryable_failure kinds_env (provider kinds_env i)) [0, 1, 2, 3, 4] =
     [Some ''Empty response from Mistral API'', Some ''Expecting value'',
      Some ''Connection timed out'', Some ''Rate limit exceeded'',
      Some ''No valid ideas found in response'']"
  by code_simp

lemma kinds_delays:
  "map (\<lambda>i. case provider kinds_env (posts empty_world + i) of
               Inl e \<Rightarrow> 1 | Inr response \<Rightarrow> 2 ^ i) [0..<nat 5 - 1] = [1, 2, 1, 8 :: nat]"
  by code_simp

lemma kinds_last:
  "str_opt (if nat 5 = 0 then None
            else retryable_failure kinds_env (provider kinds_env (posts empty_world + (nat 5 - 1))))
     = ''No valid ideas found in response''"
  by code_simp

lemma recover_delays:
  "map (\<lambda>i. case provider recover_env (posts empty_world + i) of
               Inl e \<Rightarrow> 1 | Inr response \<Rightarrow> 2 ^ i) [0..<1] = [1 :: nat]"
  by code_simp

lemma recover_first:
  "retryable_failure recover_env (provider recover_env 0) = Some ''Rate limit exceeded''"
  by code_simp

lemma recover_second:
  "provider recover_env (posts empty_world + 1)
     = Inr \<lparr>status_code = 200, resp_text = chat_body shop_content\<rparr>"
  by (simp add: recover_env_def test_env_def chat_reply_def empty_world_def)

lemma recover_process:
  "scraper_process recover_env \<lparr>status_code = 200, resp_text = chat_body shop_content\<rparr>
     (draws empty_world) =
     (Inr (JDict [(''similar_ideas'', JList
        [JDict [(''idea_name'', JStr ''ShopEasy''),
                (''idea_description'', JStr ''Online store builder for local retail''),
                (''similarity'', JInt 85), (''category'', JStr ''E-commerce'')],
         JDict [(''idea_name'', JStr ''TutorLink''),
                (''idea_description'', JStr ''Connects students with tutors''),
                (''similarity'', JInt 75), (''category'', JStr ''EdTech'')]])]), 2)"
  by code_simp

theorem scraper_retry_policy_witness:
  "map (\<lambda>i. retryable_failure kinds_env (provider kinds_env i)) [0, 1, 2, 3, 4] =
     [Some ''Empty response from Mistral API'', Some ''Expecting value'',
      Some ''Connection timed out'', Some ''Rate limit exceeded'',
      Some ''No valid ideas found in response'']
   \<and> posts (snd (scraper_query_mistral kinds_env 5 empty_world)) = 5
   \<and> sleeps (snd (scraper_query_mistral kinds_env 5 empty_world)) = [1, 2, 1, 8]
   \<and> fst (scraper_query_mistral kinds_env 5 empty_world) =
       JDict [(''similar_ideas'', JList []),
              (''error'', JStr ''Failed to get valid response after 5 attempts. Last error: No valid ideas found in response'')]
   \<and> retryable_failure recover_env (provider recover_env 0) = Some ''Rate limit exceeded''
   \<and> posts (snd (scraper_query_mistral recover_env 3 empty_world)) = 2
   \<and> draws (snd (scraper_query_mistral recover_env 3 empty_world)) = 2
   \<and> sleeps (snd (scraper_query_mistral recover_env 3 empty_world)) = [1]
   \<and> fst (scraper_query_mistral recover_env 3 empty_world) =
       JDict [(''similar_ideas'', JList
         [JDict [(''idea_name'', JStr ''ShopEasy''),
                 (''idea_description'', JStr ''Online store builder for local retail''),
                 (''similarity'', JInt 85), (''category'', JStr ''E-commerce'')],
          JDict [(''idea_name'', JStr ''TutorLink''),
                 (''idea_description'', JStr ''Connects students with tutors''),
                 (''similarity'', JInt 75), (''category'', JStr ''EdTech'')]])]"
proof -
  let ?run = "scraper_query_mistral kinds_env 5 empty_world"
  let ?again = "scraper_query_mistral recover_env 3 empty_world"
  let ?response = "\<lparr>status_code = 200, resp_text = chat_body shop_content\<rparr>"
  from kinds_messages have each:
    "retryable_failure kinds_env (provider kinds_env 0) \<noteq> None"
    "retryable_failure kinds_env (provider kinds_env 1) \<noteq> None"
    "retryable_failure kinds_env (provider kinds_env 2) \<noteq> None"
    "retryable_failure kinds_env (provider kinds_env 3) \<noteq> None"
    "retryable_failure kinds_env (provider kinds_env 4) \<noteq> None"
    by simp_all
  have fails: "\<forall>i < nat 5. retryable_failure kinds_env
                 (provider kinds_env (posts empty_world + i)) \<noteq> None"
  proof (intro allI impI)
    fix i :: nat
    assume "i < nat 5"
    then have "i = 0 \<or> i = 1 \<or> i = 2 \<or> i = 3 \<or> i = 4" by auto
    with each show "retryable_failure kinds_env
        (provider kinds_env (posts empty_world + i)) \<noteq> None"
      by (auto simp: empty_world_def)
  qed
  note exhausted = scraper_retry_policy [OF prod.collapse [symmetric],
      THEN conjunct2, THEN conjunct1, THEN mp, OF fails]
  from exhausted [THEN conjunct1, unfolded kinds_delays]
  have world: "snd ?run = empty_world\<lparr>posts := posts empty_world + nat 5,
                                      sleeps := sleeps empty_world @ [1, 2, 1, 8]\<rparr>" .
  from exhausted [THEN conjunct2, unfolded kinds_last str_int_5]
  have out: "fst ?run = JDict [(''similar_ideas'', JList []),
      (''error'', JStr (''Failed to get valid response after '' @ ''5''
         @ '' attempts. Last error: '' @ ''No valid ideas found in response''))]" .
  have first: "\<forall>i < 1. retryable_failure recover_env
                 (provider recover_env (posts empty_world + i)) \<noteq> None"
    using recover_first by (simp add: empty_world_def)
  have hyp: "1 < nat 3
       \<and> (\<forall>i < 1. retryable_failure recover_env
                     (provider recover_env (posts empty_world + i)) \<noteq> None)
       \<and> provider recover_env (posts empty_world + 1) = Inr ?response
       \<and> status_code ?response = 200
       \<and> scraper_process recover_env ?response (draws empty_world) =
           (Inr (JDict [(''similar_ideas'', JList
              [JDict [(''idea_name'', JStr ''ShopEasy''),
                      (''idea_description'', JStr ''Online store builder for local retail''),
                      (''similarity'', JInt 85), (''category'', JStr ''E-commerce'')],
               JDict [(''idea_name'', JStr ''TutorLink''),
                      (''idea_description'', JStr ''Connects students with tutors''),
                      (''similarity'', JInt 75), (''category'', JStr ''EdTech'')]])]), 2)"
    using first recover_second recover_process by (intro conjI) simp_all
  note recovered = scraper_retry_policy [OF prod.collapse [symmetric],
      THEN conjunct2, THEN conjunct2, THEN mp, OF hyp]
  from recovered [THEN conjunct1, unfolded recover_delays]
  have world2: "snd ?again = empty_world\<lparr>posts := posts empty_world + 1 + 1, draws := 2,
                                         sleeps := sleeps empty_world @ [1]\<rparr>" .
  note out2 = recovered [THEN conjunct2]
  have "posts (snd ?run) = 5" "sleeps (snd ?run) = [1, 2, 1, 8]"
    unfolding world by (simp_all add: empty_world_def)
  moreover have "posts (snd ?again) = 2" "draws (snd ?again) = 2" "sleeps (snd ?again) = [1]"
    unfolding world2 by (simp_all add: empty_world_def)
  moreover from out have "fst ?run = JDict [(''similar_ideas'', JList []),
      (''error'', JStr ''Failed to get valid response after 5 attempts. Last error: No valid ideas found in response'')]"
    by simp
  ultimately show ?thesis
    using kinds_messages recover_first out2 by (intro conjI)
qed

section \<open>Properties of the branch for the other HTTP statuses\<close>










lemma broken_analysis_posts:
  "posts (snd (analyze_competitors broken_env ''idea.txt'' idea_world)) = 1"
  by code_simp






section \<open>Properties of the JSON extraction\<close>

lemma json_match_span:
  assumes "CHR ''{'' \<notin> set pre" and "CHR ''}'' \<notin> set suf"
  shows "json_match (pre @ ''{'' @ mid @ ''}'' @ suf) = Some (''{'' @ mid @ ''}'')"
proof -
  have "dropWhile (\<lambda>c. c \<noteq> CHR ''{'') (pre @ CHR ''{'' # mid @ CHR ''}'' # suf)
          = CHR ''{'' # mid @ CHR ''}'' # suf"
    using assms(1) by (subst dropWhile_append2) auto
  moreover have "dropWhile (\<lambda>c. c \<noteq> CHR ''}'') (rev suf @ CHR ''}'' # rev mid)
          = CHR ''}'' # rev mid"
    using assms(2) by (subst dropWhile_append2) auto
  ultimately show ?thesis by (simp add: json_match_def)
qed

lemma json_match_Some:
  assumes "json_match s = Some m"
  shows "\<exists>pre mid suf. s = pre @ ''{'' @ mid @ ''}'' @ suf"
proof -
  define from_open where "from_open = dropWhile (\<lambda>c. c \<noteq> CHR ''{'') s"
  define inner where "inner = rev (dropWhile (\<lambda>c. c \<noteq> CHR ''}'') (rev (tl from_open)))"
  from assms have ne: "from_open \<noteq> []" and inner_ne: "inner \<noteq> []"
    by (auto simp: json_match_def Let_def from_open_def inner_def split: if_splits)
  from ne have "hd from_open = CHR ''{''"
    unfolding from_open_def using hd_dropWhile [of "\<lambda>c. c \<noteq> CHR ''{''" s] by simp
  with ne have fo: "from_open = CHR ''{'' # tl from_open" by (cases from_open) simp_all
  have s: "s = takeWhile (\<lambda>c. c \<noteq> CHR ''{'') s @ from_open"
    by (simp add: from_open_def)
  let ?d = "dropWhile (\<lambda>c. c \<noteq> CHR ''}'') (rev (tl from_open))"
  from inner_ne have d_ne: "?d \<noteq> []" by (simp add: inner_def)
  then have "hd ?d = CHR ''}''"
    using hd_dropWhile [of "\<lambda>c. c \<noteq> CHR ''}''" "rev (tl from_open)"] by simp
  with d_ne have d: "?d = CHR ''}'' # tl ?d" by (cases ?d) simp_all
  have "rev (tl from_open) = takeWhile (\<lambda>c. c \<noteq> CHR ''}'') (rev (tl from_open)) @ ?d"
    by simp
  then have "tl from_open = rev ?d @ rev (takeWhile (\<lambda>c. c \<noteq> CHR ''}'') (rev (tl from_open)))"
    by (metis rev_append rev_rev_ident)
  also have "rev ?d = rev (tl ?d) @ ''}''" by (subst d) simp
  finally have "tl from_open = rev (tl ?d) @ ''}''
      @ rev (takeWhile (\<lambda>c. c \<noteq> CHR ''}'') (rev (tl from_open)))" by simp
  with fo s have "s = takeWhile (\<lambda>c. c \<noteq> CHR ''{'') s @ ''{'' @ rev (tl ?d) @ ''}''
      @ rev (takeWhile (\<lambda>c. c \<noteq> CHR ''}'') (rev (tl from_open)))"
    by (metis append_Cons append_Nil)
  then show ?thesis by blast
qed

text \<open>
  C3, as stated: the fallback extracts the first balanced \<open>{...}\<close> span, and the routine fails
  only when no parseable object is found that way. On the text below the first balanced span
  is \<open>{"a": 1}\<close>, which is a JSON object, but the code takes the text from the first \<open>{\<close> to the
  last \<open>}\<close>, which is not JSON, and fails.
\<close>

theorem balanced_span_counterexample:
  \<open>json_match ''Here: {"a": 1} or {"b": 2}'' = Some ''{"a": 1} or {"b": 2}''
   \<and> first_balanced_span ''Here: {"a": 1} or {"b": 2}'' = Some ''{"a": 1}''
   \<and> extract_json (test_env (\<lambda>n. Inl (RequestException [])) [(''{"a": 1}'', JDict [(''a'', JInt 1)])])
         ''Here: {"a": 1} or {"b": 2}'' = Inl (JSONDecodeError ''Expecting value'')
   \<and> extract_json_spec (test_env (\<lambda>n. Inl (RequestException [])) [(''{"a": 1}'', JDict [(''a'', JInt 1)])])
         ''Here: {"a": 1} or {"b": 2}'' = Inr (JDict [(''a'', JInt 1)])\<close>
  by code_simp

text \<open>
  C3, amended. The routine first parses the stripped text and returns the value when that
  succeeds. When it fails, the routine takes the span from the first \<open>{\<close> of the text to the
  last \<open>}\<close> after it (a greedy regular expression, no brace matching) and parses that span:
  it returns the value, or fails with the JSONDecodeError of that second parse. Only when the
  text has no \<open>{\<close> followed by a \<open>}\<close> does it fail with "No valid JSON found in response".
\<close>

theorem extract_json_greedy_span:
  "(loads E (strip content) = Inr data \<longrightarrow> extract_json E content = Inr data)
   \<and> (loads E (strip content) = Inl msg \<and> content = pre @ ''{'' @ mid @ ''}'' @ suf
        \<and> CHR ''{'' \<notin> set pre \<and> CHR ''}'' \<notin> set suf \<longrightarrow>
      extract_json E content =
        (case loads E (''{'' @ mid @ ''}'') of
           Inr data' \<Rightarrow> Inr data' | Inl msg' \<Rightarrow> Inl (JSONDecodeError msg')))
   \<and> (loads E (strip content) = Inl msg
        \<and> (\<nexists>pre mid suf. content = pre @ ''{'' @ mid @ ''}'' @ suf) \<longrightarrow>
      extract_json E content = Inl (ValueError ''No valid JSON found in response''))"
proof (intro conjI impI)
  assume "loads E (strip content) = Inr data"
  then show "extract_json E content = Inr data" by (simp add: extract_json_def)
next
  assume a: "loads E (strip content) = Inl msg \<and> content = pre @ ''{'' @ mid @ ''}'' @ suf
        \<and> CHR ''{'' \<notin> set pre \<and> CHR ''}'' \<notin> set suf"
  then have l: "loads E (strip content) = Inl msg"
    and c: "content = pre @ ''{'' @ mid @ ''}'' @ suf"
    and p: "CHR ''{'' \<notin> set pre" and s: "CHR ''}'' \<notin> set suf"
    by blast+
  have "json_match content = Some (''{'' @ mid @ ''}'')"
    unfolding c using p s by (rule json_match_span)
  with l show "extract_json E content =
        (case loads E (''{'' @ mid @ ''}'') of
           Inr data' \<Rightarrow> Inr data' | Inl msg' \<Rightarrow> Inl (JSONDecodeError msg'))"
    by (simp add: extract_json_def)
next
  assume a: "loads E (strip content) = Inl msg
        \<and> (\<nexists>pre mid suf. content = pre @ ''{'' @ mid @ ''}'' @ suf)"
  then have l: "loads E (strip content) = Inl msg"
    and no: "\<nexists>pre mid suf. content = pre @ ''{'' @ mid @ ''}'' @ suf"
    by blast+
  have "json_match content = None"
  proof (cases "json_match content")
    case (Some m)
    from json_match_Some [OF this] no show ?thesis by blast
  qed simp
  with l show "extract_json E content = Inl (ValueError ''No valid JSON found in response'')"
    by (simp add: extract_json_def)
qed

lemma wrapped_loads:
  \<open>loads (test_env (\<lambda>n. Inl (RequestException [])) [(''{"a": 1}'', JDict [(''a'', JInt 1)])])
     (strip ''Sure! {"a": 1} Done.'') = Inl ''Expecting value''
   \<and> loads (test_env (\<lambda>n. Inl (RequestException [])) [(''{"a": 1}'', JDict [(''a'', JInt 1)])])
       ''{"a": 1}'' = Inr (JDict [(''a'', JInt 1)])\<close>
  by code_simp

theorem extract_json_greedy_span_witness:
  \<open>extract_json (test_env (\<lambda>n. Inl (RequestException [])) [(''{"a": 1}'', JDict [(''a'', JInt 1)])])
     ''Sure! {"a": 1} Done.'' = Inr (JDict [(''a'', JInt 1)])
   \<and> extract_json (test_env (\<lambda>n. Inl (RequestException [])) [(''{"a": 1}'', JDict [(''a'', JInt 1)])])
     ''{"a": 1}'' = Inr (JDict [(''a'', JInt 1)])\<close>
proof -
  let ?E = \<open>test_env (\<lambda>n. Inl (RequestException [])) [(''{"a": 1}'', JDict [(''a'', JInt 1)])]\<close>
  have direct: \<open>loads ?E (strip ''{"a": 1}'') = Inr (JDict [(''a'', JInt 1)])\<close>
    by code_simp
  have hyp: \<open>loads ?E (strip ''Sure! {"a": 1} Done.'') = Inl ''Expecting value''
      \<and> ''Sure! {"a": 1} Done.'' = ''Sure! '' @ ''{'' @ ''"a": 1'' @ ''}'' @ '' Done.''
      \<and> CHR ''{'' \<notin> set ''Sure! '' \<and> CHR ''}'' \<notin> set '' Done.''\<close>
    using wrapped_loads by simp
  have \<open>extract_json ?E ''Sure! {"a": 1} Done.'' =
        (case loads ?E (''{'' @ ''"a": 1'' @ ''}'') of
           Inr data' \<Rightarrow> Inr data' | Inl msg' \<Rightarrow> Inl (JSONDecodeError msg'))\<close>
    using extract_json_greedy_span [of ?E \<open>''Sure! {"a": 1} Done.''\<close> undefined
        \<open>''Expecting value''\<close> \<open>''Sure! ''\<close> \<open>''"a": 1''\<close> \<open>'' Done.''\<close>] hyp
    by blast
  then have first: \<open>extract_json ?E ''Sure! {"a": 1} Done.'' = Inr (JDict [(''a'', JInt 1)])\<close>
    using wrapped_loads by simp
  from extract_json_greedy_span [of ?E \<open>''{"a": 1}''\<close> \<open>JDict [(''a'', JInt 1)]\<close>] direct
  have \<open>extract_json ?E ''{"a": 1}'' = Inr (JDict [(''a'', JInt 1)])\<close>
    by blast
  with first show ?thesis by simp
qed

section \<open>Properties of the validation scores (ValidatorAgent)\<close>

lemma check_scores_present:
  "check_scores E scores names = Inr True \<Longrightarrow> name \<in> set names \<Longrightarrow>
   \<exists>v x. map_of scores name = Some v \<and> py_float E v = Inr (Fin x) \<and> 0 \<le> x \<and> x \<le> 10"
proof (induction names)
  case Nil
  then show ?case by simp
next
  case (Cons n rest)
  from Cons.prems(1) obtain v f where
    v: "map_of scores n = Some v" and f: "py_float E v = Inr f" and r: "in_range f" and
    rest: "check_scores E scores rest = Inr True"
    by (auto split: option.splits sum.splits if_splits)
  from r obtain x where "f = Fin x" "0 \<le> x" "x \<le> 10" by (cases f) simp_all
  with v f rest Cons.IH Cons.prems(2) show ?case by auto
qed

lemma round_scores_lookup:
  "round_scores E scores = Inr scores' \<Longrightarrow> map_of scores name = Some v \<Longrightarrow>
   \<exists>f r. py_float E v = Inr f \<and> py_round f = Inr r \<and> map_of scores' name = Some (JInt r)"
proof (induction scores arbitrary: scores')
  case Nil
  then show ?case by simp
next
  case (Cons entry rest)
  obtain key v0 where entry: "entry = (key, v0)" by (cases entry)
  from Cons.prems(1) entry obtain f r rs where
    f: "py_float E v0 = Inr f" and r: "py_round f = Inr r" and
    rs: "round_scores E rest = Inr rs" and out: "scores' = (key, JInt r) # rs"
    by (auto simp: and_then_def split: sum.splits)
  show ?case
  proof (cases "name = key")
    case True
    with Cons.prems(2) entry have "v = v0" by simp
    with True f r out show ?thesis by simp
  next
    case False
    with Cons.prems(2) entry have "map_of rest name = Some v" by simp
    from Cons.IH [OF rs this] False out show ?thesis by simp
  qed
qed

lemma round_scores_keys:
  "round_scores E scores = Inr scores' \<Longrightarrow> map fst scores' = map fst scores"
proof (induction scores arbitrary: scores')
  case Nil
  then show ?case by simp
next
  case (Cons entry rest)
  obtain key v0 where entry: "entry = (key, v0)" by (cases entry)
  from Cons.prems entry obtain r rs where
    "round_scores E rest = Inr rs" "scores' = (key, JInt r) # rs"
    by (auto simp: and_then_def split: sum.splits)
  with Cons.IH entry show ?case by simp
qed

lemma round_half_even_range: "0 \<le> x \<Longrightarrow> x \<le> 10 \<Longrightarrow> 0 \<le> round_half_even x \<and> round_half_even x \<le> 10"
  using round_half_even_ge [of 0 x] round_half_even_le [of x 10] by simp

lemma sum_values_distinct:
  assumes "distinct (map fst scores)"
  shows "sum_values scores
       = (\<Sum>key \<in> set (map fst scores). case the (map_of scores key) of JInt i \<Rightarrow> i | _ \<Rightarrow> 0)"
proof -
  let ?f = "\<lambda>(key, v). case v of JInt i \<Rightarrow> (i::int) | _ \<Rightarrow> 0"
  let ?g = "\<lambda>key. case the (map_of scores key) of JInt i \<Rightarrow> (i::int) | _ \<Rightarrow> 0"
  have "?f entry = ?g (fst entry)" if "entry \<in> set scores" for entry
  proof -
    obtain key v where entry: "entry = (key, v)" by (cases entry)
    with that assms have "map_of scores key = Some v" by simp
    with entry show ?thesis by simp
  qed
  then have "map ?f scores = map (\<lambda>entry. ?g (fst entry)) scores"
    by (intro map_cong refl)
  then have "sum_list (map ?f scores) = sum_list (map (\<lambda>entry. ?g (fst entry)) scores)"
    by (rule arg_cong)
  also have "\<dots> = sum_list (map ?g (map fst scores))"
    by (simp only: map_map comp_def)
  finally have "sum_values scores = sum_list (map ?g (map fst scores))"
    by (simp only: sum_values_def)
  also have "\<dots> = (\<Sum>key \<in> set (map fst scores). ?g key)"
    using assms by (rule sum_list_distinct_conv_sum_set)
  finally show ?thesis .
qed

lemma required_distinct: "distinct required_scores"
  by (simp add: required_scores_def)

lemma validator_process_parts:
  assumes "validator_process E content = Inr out"
  shows "\<exists>s d raw scores.
           nonblank ''Empty response from API'' content = Inr s
         \<and> extract_json E s = Inr (JDict d)
         \<and> map_of d ''validation_scores'' = Some (JDict raw)
         \<and> check_scores E raw required_scores = Inr True
         \<and> round_scores E raw = Inr scores
         \<and> out = JDict (AList.update ''overall_score'' (JInt (sum_values scores))
                          (AList.update ''validation_scores'' (JDict scores) d))"
proof -
  from assms obtain s parsed where
    s: "nonblank ''Empty response from API'' content = Inr s" and
    parsed: "extract_json E s = Inr parsed" and
    ok: "validate_scores E parsed = Inr True" and
    rest: "(case parsed of
              JDict d \<Rightarrow>
                (case map_of d ''validation_scores'' of
                   Some (JDict scores) \<Rightarrow>
                     and_then (round_scores E scores)
                       (\<lambda>scores'. Inr (JDict
                          (AList.update ''overall_score'' (JInt (sum_values scores'))
                             (AList.update ''validation_scores'' (JDict scores') d))))
                 | _ \<Rightarrow> Inl (TypeError ''object is not subscriptable''))
            | _ \<Rightarrow> Inl (TypeError ''object is not subscriptable'')) = Inr out"
    by (auto simp: validator_process_def and_then_def split: sum.splits if_splits)
  from ok obtain d raw where
    d: "parsed = JDict d" and raw: "map_of d ''validation_scores'' = Some (JDict raw)" and
    chk: "check_scores E raw required_scores = Inr True"
    by (auto simp: validate_scores_def split: json.splits option.splits)
  from rest d raw obtain scores where
    "round_scores E raw = Inr scores"
    "out = JDict (AList.update ''overall_score'' (JInt (sum_values scores))
                          (AList.update ''validation_scores'' (JDict scores) d))"
    by (auto simp: and_then_def split: sum.splits)
  with s parsed d raw chk show ?thesis by blast
qed

lemma round_scores_shape:
  "round_scores E raw = Inr scores \<Longrightarrow>
   \<exists>rounded. length rounded = length raw
     \<and> scores = map2 (\<lambda>entry r. (fst entry, JInt r)) raw rounded
     \<and> (\<forall>j < length raw. \<exists>q. py_float E (snd (raw ! j)) = Inr (Fin q)
            \<and> rounded ! j = round_half_even q)
     \<and> sum_values scores = sum_list rounded"
proof (induction raw arbitrary: scores)
  case Nil
  then show ?case by (simp add: sum_values_def)
next
  case (Cons entry rest)
  obtain key v0 where entry: "entry = (key, v0)" by (cases entry)
  from Cons.prems entry obtain f r rs where
    f: "py_float E v0 = Inr f" and r: "py_round f = Inr r" and
    rs: "round_scores E rest = Inr rs" and out: "scores = (key, JInt r) # rs"
    by (auto simp: and_then_def split: sum.splits)
  from r obtain q where q: "f = Fin q" "r = round_half_even q" by (cases f) auto
  from Cons.IH [OF rs] obtain rounded where
    len: "length rounded = length rest" and
    shape: "rs = map2 (\<lambda>entry r. (fst entry, JInt r)) rest rounded" and
    each: "\<forall>j < length rest. \<exists>q. py_float E (snd (rest ! j)) = Inr (Fin q)
            \<and> rounded ! j = round_half_even q" and
    total: "sum_values rs = sum_list rounded"
    by blast
  have "length (r # rounded) = length (entry # rest)" using len by simp
  moreover have "scores = map2 (\<lambda>entry r. (fst entry, JInt r)) (entry # rest) (r # rounded)"
    using out shape entry by simp
  moreover have "\<forall>j < length (entry # rest). \<exists>q.
      py_float E (snd ((entry # rest) ! j)) = Inr (Fin q) \<and> (r # rounded) ! j = round_half_even q"
  proof (intro allI impI)
    fix j
    assume "j < length (entry # rest)"
    then show "\<exists>q. py_float E (snd ((entry # rest) ! j)) = Inr (Fin q)
        \<and> (r # rounded) ! j = round_half_even q"
      using each f q entry by (cases j) auto
  qed
  moreover have "sum_values scores = sum_list (r # rounded)"
    using out total by (simp add: sum_values_def)
  ultimately show ?case by blast
qed

lemma rounded_of_scores:
  "length rounded = length raw \<Longrightarrow>
   map (\<lambda>(key, v). case v of JInt i \<Rightarrow> i | _ \<Rightarrow> 0)
       (map2 (\<lambda>entry r. (fst entry, JInt r)) raw rounded) = rounded
   \<and> map fst (map2 (\<lambda>entry r. (fst entry, JInt r)) raw rounded) = map fst raw"
  by (induction rounded raw rule: list_induct2) simp_all

lemma validator_process_scores:
  assumes "validator_process E content = Inr out"
  shows "\<exists>s d raw rounded six.
           nonblank ''Empty response from API'' content = Inr s
         \<and> extract_json E s = Inr (JDict d)
         \<and> map_of d ''validation_scores'' = Some (JDict raw)
         \<and> length rounded = length raw
         \<and> (\<forall>j < length raw. \<exists>q. py_float E (snd (raw ! j)) = Inr (Fin q)
                \<and> rounded ! j = round_half_even q)
         \<and> out = JDict (AList.update ''overall_score'' (JInt (sum_list rounded))
                    (AList.update ''validation_scores''
                       (JDict (map2 (\<lambda>entry r. (fst entry, JInt r)) raw rounded)) d))
         \<and> (\<forall>name \<in> set required_scores. \<exists>v q.
               map_of raw name = Some v \<and> py_float E v = Inr (Fin q)
             \<and> six name = round_half_even q \<and> 0 \<le> six name \<and> six name \<le> 10
             \<and> map_of (map2 (\<lambda>entry r. (fst entry, JInt r)) raw rounded) name
                 = Some (JInt (six name)))
         \<and> (distinct (map fst raw) \<and> set (map fst raw) = set required_scores \<longrightarrow>
              sum_list rounded = (\<Sum>name\<leftarrow>required_scores. six name))"
proof -
  from validator_process_parts [OF assms] obtain s d raw scores where
    s: "nonblank ''Empty response from API'' content = Inr s" and
    d: "extract_json E s = Inr (JDict d)" and
    raw: "map_of d ''validation_scores'' = Some (JDict raw)" and
    chk: "check_scores E raw required_scores = Inr True" and
    rnd: "round_scores E raw = Inr scores" and
    out: "out = JDict (AList.update ''overall_score'' (JInt (sum_values scores))
                          (AList.update ''validation_scores'' (JDict scores) d))"
    by blast
  from round_scores_shape [OF rnd] obtain rounded where
    len: "length rounded = length raw" and
    shape: "scores = map2 (\<lambda>entry r. (fst entry, JInt r)) raw rounded" and
    each: "\<forall>j < length raw. \<exists>q. py_float E (snd (raw ! j)) = Inr (Fin q)
            \<and> rounded ! j = round_half_even q" and
    sum: "sum_values scores = sum_list rounded"
    by blast
  define six where "six = (\<lambda>name. case the (map_of scores name) of JInt i \<Rightarrow> i | _ \<Rightarrow> (0::int))"
  have keys: "map fst scores = map fst raw" using rnd by (rule round_scores_keys)
  have out': "out = JDict (AList.update ''overall_score'' (JInt (sum_list rounded))
                    (AList.update ''validation_scores''
                       (JDict (map2 (\<lambda>entry r. (fst entry, JInt r)) raw rounded)) d))"
    using out sum shape by simp
  have required: "\<exists>v q. map_of raw name = Some v \<and> py_float E v = Inr (Fin q)
             \<and> six name = round_half_even q \<and> 0 \<le> six name \<and> six name \<le> 10
             \<and> map_of (map2 (\<lambda>entry r. (fst entry, JInt r)) raw rounded) name
                 = Some (JInt (six name))"
    if "name \<in> set required_scores" for name
  proof -
    from check_scores_present [OF chk that] obtain v x where
      v: "map_of raw name = Some v" and x: "py_float E v = Inr (Fin x)" and
      range: "0 \<le> x" "x \<le> 10"
      by blast
    from round_scores_lookup [OF rnd v] x
    have look: "map_of scores name = Some (JInt (round_half_even x))" by auto
    then have "six name = round_half_even x" by (simp add: six_def)
    with v x look round_half_even_range [OF range] shape show ?thesis by auto
  qed
  have total: "sum_list rounded = (\<Sum>name\<leftarrow>required_scores. six name)"
    if "distinct (map fst raw) \<and> set (map fst raw) = set required_scores"
  proof -
    from that keys have "sum_values scores = (\<Sum>key \<in> set required_scores. six key)"
      using sum_values_distinct [of scores] by (simp add: six_def)
    also have "\<dots> = (\<Sum>name\<leftarrow>required_scores. six name)"
      using required_distinct by (rule sum_list_distinct_conv_sum_set [symmetric])
    finally show ?thesis using sum by simp
  qed
  from s d raw len each out' required total show ?thesis by blast
qed

lemma validator_loop_result:
  "validator_loop E m attempts last_error raw w = (out, w') \<Longrightarrow>
   (\<exists>last_error' raw'. out = validator_failure m last_error' raw')
   \<or> (\<exists>response content. response_content E response = Inr content
         \<and> validator_process E content = Inr out)"
proof (induction attempts arbitrary: last_error raw w)
  case Nil
  then show ?case by auto
next
  case (Cons attempt rest)
  from Cons.prems consider
      (again) le r v where "validator_loop E m rest le r v = (out, w')"
    | (failed) le where "out = validator_failure m le raw"
    | (success) response content where
        "response_content E response = Inr content" "validator_process E content = Inr out"
    by (auto simp: post_outcome split: sum.splits if_splits)
  then show ?case
  proof cases
    case again
    then show ?thesis by (rule Cons.IH)
  next
    case failed
    then show ?thesis by blast
  next
    case success
    then show ?thesis by blast
  qed
qed

text \<open>
  C2, as stated: \<open>overall_score\<close> equals the sum of the six rounded dimension scores. The
  model answer \<open>scores_content\<close> scores the six dimensions with 5 and has a seventh entry 9 in
  \<open>validation_scores\<close>; \<open>query_mistral\<close> returns a successful result in which the six scores
  sum to 30 and \<open>overall_score\<close> is 39.
\<close>

theorem overall_score_six_counterexample:
  "fst (validator_query_mistral scores_env 3 ''idea.txt'' idea_world) =
     Inr (JDict [(''validation_scores'', JDict
                    [(''uniqueness'', JInt 5), (''feasibility'', JInt 5), (''market_trend'', JInt 5),
                     (''scalability'', JInt 5), (''problem_relevance'', JInt 5),
                     (''user_adoption_potential'', JInt 5), (''innovation'', JInt 9)]),
                 (''overall_score'', JInt 39)])
   \<and> (\<Sum>name\<leftarrow>required_scores.
         case map_of [(''uniqueness'', JInt 5), (''feasibility'', JInt 5), (''market_trend'', JInt 5),
                      (''scalability'', JInt 5), (''problem_relevance'', JInt 5),
                      (''user_adoption_potential'', JInt 5), (''innovation'', JInt 9)] name of
           Some (JInt i) \<Rightarrow> i | _ \<Rightarrow> 0) = 30"
  by code_simp

text \<open>
  C2, amended. Whatever \<open>ValidatorAgent.query_mistral\<close> returns is either the all-zero failure
  result or the successful processing of a model answer. In the second case, \<open>raw\<close> being the
  \<open>validation_scores\<close> of the parsed answer \<open>d\<close>: the result is \<open>d\<close> with \<open>validation_scores\<close>
  and \<open>overall_score\<close> replaced. Every entry of \<open>validation_scores\<close>, the six dimensions and any
  other, keeps its key and place and has for value the model's value converted with \<open>float\<close>
  and rounded to the nearest integer (a tie to the even one); each of the six dimension scores
  is an integer in {0,...,10}; and \<open>overall_score\<close> is the integer sum of all those rounded
  entries, whatever aggregate the model reported, which is the sum of the six dimension scores
  when those are the only entries.
\<close>

theorem overall_score_recomputed:
  assumes "validator_query_mistral E max_retries file_path w = (Inr out, w')"
  shows "(\<exists>last_error raw_response. out = validator_failure max_retries last_error raw_response)
    \<or> (\<exists>content s d raw rounded six.
           nonblank ''Empty response from API'' content = Inr s
         \<and> extract_json E s = Inr (JDict d)
         \<and> map_of d ''validation_scores'' = Some (JDict raw)
         \<and> length rounded = length raw
         \<and> (\<forall>j < length raw. \<exists>q. py_float E (snd (raw ! j)) = Inr (Fin q)
                \<and> rounded ! j = round_half_even q)
         \<and> out = JDict (AList.update ''overall_score'' (JInt (sum_list rounded))
                    (AList.update ''validation_scores''
                       (JDict (map2 (\<lambda>entry r. (fst entry, JInt r)) raw rounded)) d))
         \<and> (\<forall>name \<in> set required_scores. \<exists>v q.
               map_of raw name = Some v \<and> py_float E v = Inr (Fin q)
             \<and> six name = round_half_even q \<and> 0 \<le> six name \<and> six name \<le> 10
             \<and> map_of (map2 (\<lambda>entry r. (fst entry, JInt r)) raw rounded) name
                 = Some (JInt (six name)))
         \<and> (distinct (map fst raw) \<and> set (map fst raw) = set required_scores \<longrightarrow>
              sum_list rounded = (\<Sum>name\<leftarrow>required_scores. six name)))"
proof -
  from assms obtain v where
    "validator_loop E max_retries [0..<nat max_retries] None None v = (out, w')"
    by (auto simp: validator_query_mistral_def split: sum.splits prod.splits option.splits)
  from validator_loop_result [OF this] show ?thesis
  proof
    assume "\<exists>last_error' raw'. out = validator_failure max_retries last_error' raw'"
    then show ?thesis by blast
  next
    assume "\<exists>response content. response_content E response = Inr content
         \<and> validator_process E content = Inr out"
    then obtain content where "validator_process E content = Inr out" by blast
    from validator_process_scores [OF this] show ?thesis by blast
  qed
qed

lemma six_run:
  "fst (validator_query_mistral six_env 3 ''idea.txt'' idea_world) =
     Inr (JDict [(''validation_scores'', JDict
                    [(''uniqueness'', JInt 6), (''feasibility'', JInt 7), (''market_trend'', JInt 8),
                     (''scalability'', JInt 8), (''problem_relevance'', JInt 9),
                     (''user_adoption_potential'', JInt 10)]),
                 (''overall_score'', JInt 48)])"
  by code_simp

theorem overall_score_recomputed_witness:
  "fst (validator_query_mistral six_env 3 ''idea.txt'' idea_world) =
     Inr (JDict [(''validation_scores'', JDict
                    [(''uniqueness'', JInt 6), (''feasibility'', JInt 7), (''market_trend'', JInt 8),
                     (''scalability'', JInt 8), (''problem_relevance'', JInt 9),
                     (''user_adoption_potential'', JInt 10)]),
                 (''overall_score'', JInt 48)])
   \<and> (\<exists>(rounded :: int list) six. rounded = [6, 7, 8, 8, 9, 10] \<and> sum_list rounded = 48
         \<and> six ''uniqueness'' = 6 \<and> six ''market_trend'' = 8
         \<and> sum_list rounded = (\<Sum>name\<leftarrow>required_scores. six name))"
proof -
  let ?scores = "[(''uniqueness'', JInt 6), (''feasibility'', JInt 7), (''market_trend'', JInt 8),
                  (''scalability'', JInt 8), (''problem_relevance'', JInt 9),
                  (''user_adoption_potential'', JInt 10)]"
  let ?out = "JDict [(''validation_scores'', JDict ?scores), (''overall_score'', JInt 48)]"
  from six_run have run: "validator_query_mistral six_env 3 ''idea.txt'' idea_world
      = (Inr ?out, snd (validator_query_mistral six_env 3 ''idea.txt'' idea_world))"
    by (metis prod.collapse)
  have "\<not> (\<exists>last_error raw_response. ?out = validator_failure 3 last_error raw_response)"
    by (simp add: validator_failure_def)
  with overall_score_recomputed [OF run] obtain d raw rounded six where
    len: "length rounded = length raw" and
    out: "?out = JDict (AList.update ''overall_score'' (JInt (sum_list rounded))
                    (AList.update ''validation_scores''
                       (JDict (map2 (\<lambda>entry r. (fst entry, JInt r)) raw rounded)) d))" and
    required: "\<forall>name \<in> set required_scores. \<exists>v q.
               map_of raw name = Some v \<and> py_float six_env v = Inr (Fin q)
             \<and> six name = round_half_even q \<and> 0 \<le> six name \<and> six name \<le> 10
             \<and> map_of (map2 (\<lambda>entry r. (fst entry, JInt r)) raw rounded) name
                 = Some (JInt (six name))" and
    total: "distinct (map fst raw) \<and> set (map fst raw) = set required_scores \<longrightarrow>
              sum_list rounded = (\<Sum>name\<leftarrow>required_scores. six name)"
    by blast
  from out have "getitem ?out ''validation_scores''
      = Inr (JDict (map2 (\<lambda>entry r. (fst entry, JInt r)) raw rounded))"
    by (simp only: getitem.simps update_conv') simp
  then have scores: "map2 (\<lambda>entry r. (fst entry, JInt r)) raw rounded = ?scores" by simp
  from out have "getitem ?out ''overall_score'' = Inr (JInt (sum_list rounded))"
    by (simp only: getitem.simps update_conv') simp
  then have sum: "sum_list rounded = 48" by simp
  from rounded_of_scores [OF len] scores have
    rounded: "rounded = [6, 7, 8, 8, 9, 10]" and keys: "map fst raw = required_scores"
    by (simp_all add: required_scores_def)
  from keys required_distinct total
  have six_sum: "sum_list rounded = (\<Sum>name\<leftarrow>required_scores. six name)" by simp
  from required scores have six1: "six ''uniqueness'' = 6" and six3: "six ''market_trend'' = 8"
    by (auto simp: required_scores_def)
  have "\<exists>(rounded :: int list) six. rounded = [6, 7, 8, 8, 9, 10] \<and> sum_list rounded = 48
         \<and> six ''uniqueness'' = 6 \<and> six ''market_trend'' = 8
         \<and> sum_list rounded = (\<Sum>name\<leftarrow>required_scores. six name)"
  proof (intro exI conjI)
    show "rounded = [6, 7, 8, 8, 9, 10]" by (rule rounded)
    show "sum_list rounded = 48" by (rule sum)
    show "six ''uniqueness'' = 6" by (rule six1)
    show "six ''market_trend'' = 8" by (rule six3)
    show "sum_list rounded = (\<Sum>name\<leftarrow>required_scores. six name)" by (rule six_sum)
  qed
  with six_run show ?thesis by (rule conjI)
qed

section \<open>Properties of the file overwrite (ProcessorAgent)\<close>

lemma overwrite_file_result:
  "overwrite_file w file_path content = Inr w' \<Longrightarrow>
   (suffix ''.txt'' file_path \<or> suffix ''.docx'' file_path \<or> suffix ''.odt'' file_path)
   \<and> w' = w\<lparr>files := (files w)(file_path \<mapsto>
          (if suffix ''.txt'' file_path then TextFile content
           else if suffix ''.docx'' file_path then DocxFile [content]
           else OdtFile [content]))\<rparr>"
  by (auto simp: overwrite_file_def split: if_splits)

text \<open>
  C10. A successful \<open>process_file\<close> on a path with a supported extension reads the raw text of
  the file (the text of a .txt, the joined paragraphs of a .docx, the concatenated \<open>text:p\<close>
  elements of an .odt), returns its normalization (lowercased, special characters removed,
  tokenized, stop words filtered out, stemmed, lemmatized, joined with single spaces) and
  leaves a world that differs from the one before in that file alone, which now holds the
  normalized text and nothing else: the file is overwritten in place and no copy of the raw
  content is written.
\<close>

theorem process_file_overwrites:
  assumes "process_file E file_path w = Inr (preprocessed, w')"
  shows "(suffix ''.txt'' file_path \<or> suffix ''.docx'' file_path \<or> suffix ''.odt'' file_path)
    \<and> (\<exists>raw_text.
          (suffix ''.txt'' file_path \<and> files w file_path = Some (TextFile raw_text)
           \<or> (\<exists>paragraphs. suffix ''.docx'' file_path
                 \<and> files w file_path = Some (DocxFile paragraphs)
                 \<and> raw_text = join [CHR 0x0A] paragraphs)
           \<or> (\<exists>elems. suffix ''.odt'' file_path
                 \<and> files w file_path = Some (OdtFile elems)
                 \<and> raw_text = concat (map (\<lambda>elem. elem @ [CHR 0x0A]) elems)))
        \<and> preprocessed =
            join '' '' (map (lemmatize E) (map (stem E)
              (filter (\<lambda>word. word \<notin> stop_words E)
                 (word_tokenize E (remove_special (lower raw_text)))))))
    \<and> w' = w\<lparr>files := (files w)(file_path \<mapsto>
          (if suffix ''.txt'' file_path then TextFile preprocessed
           else if suffix ''.docx'' file_path then DocxFile [preprocessed]
           else OdtFile [preprocessed]))\<rparr>"
proof -
  from assms obtain raw_text where
    read: "(if suffix ''.txt'' file_path then read_text w file_path
            else if suffix ''.docx'' file_path then extract_text_from_docx w file_path
            else if suffix ''.odt'' file_path then extract_text_from_odt w file_path
            else Inl (ValueError ''Unsupported file format'')) = Inr raw_text" and
    pre: "preprocessed = preprocess_text E raw_text" and
    ow: "overwrite_file w file_path preprocessed = Inr w'"
    by (auto simp: process_file_def Let_def split: sum.splits)
  from overwrite_file_result [OF ow] have
    ext: "suffix ''.txt'' file_path \<or> suffix ''.docx'' file_path \<or> suffix ''.odt'' file_path" and
    w': "w' = w\<lparr>files := (files w)(file_path \<mapsto>
          (if suffix ''.txt'' file_path then TextFile preprocessed
           else if suffix ''.docx'' file_path then DocxFile [preprocessed]
           else OdtFile [preprocessed]))\<rparr>"
    by simp_all
  from read have src:
    "suffix ''.txt'' file_path \<and> files w file_path = Some (TextFile raw_text)
           \<or> (\<exists>paragraphs. suffix ''.docx'' file_path
                 \<and> files w file_path = Some (DocxFile paragraphs)
                 \<and> raw_text = join [CHR 0x0A] paragraphs)
           \<or> (\<exists>elems. suffix ''.odt'' file_path
                 \<and> files w file_path = Some (OdtFile elems)
                 \<and> raw_text = concat (map (\<lambda>elem. elem @ [CHR 0x0A]) elems))"
    by (auto simp: read_text_def extract_text_from_docx_def extract_text_from_odt_def
        split: if_splits option.splits filedata.splits)
  have "preprocessed =
            join '' '' (map (lemmatize E) (map (stem E)
              (filter (\<lambda>word. word \<notin> stop_words E)
                 (word_tokenize E (remove_special (lower raw_text))))))"
    by (simp add: pre preprocess_text_def Let_def)
  with ext src w' show ?thesis by blast
qed

lemma raw_world_run:
  "map_sum id fst (process_file offline_env ''idea.txt'' raw_world)
     = Inr ''an app connecting tutors students''"
  by code_simp

theorem process_file_overwrites_witness:
  "\<exists>w'. process_file offline_env ''idea.txt'' raw_world
           = Inr (''an app connecting tutors students'', w')
      \<and> files w' ''idea.txt'' = Some (TextFile ''an app connecting tutors students'')
      \<and> files raw_world ''idea.txt'' = Some (TextFile ''An App, connecting Tutors & Students!'')"
proof -
  from raw_world_run obtain w' where
    run: "process_file offline_env ''idea.txt'' raw_world
            = Inr (''an app connecting tutors students'', w')"
    by (cases "process_file offline_env ''idea.txt'' raw_world") auto
  have ext: "suffix ''.txt'' ''idea.txt''" by code_simp
  from process_file_overwrites [OF run] ext
  have "files w' ''idea.txt'' = Some (TextFile ''an app connecting tutors students'')"
    by simp
  moreover have "files raw_world ''idea.txt''
      = Some (TextFile ''An App, connecting Tutors & Students!'')"
    by (simp add: raw_world_def empty_world_def)
  ultimately show ?thesis using run by blast
qed

section \<open>Properties of the pipeline and of the endpoint\<close>

lemma run_pipeline_result:
  assumes "run_pipeline E file_path w = (Inr result, w')"
  shows "\<exists>scores suggestions competitors.
           result = JDict [(''scores'', JList scores), (''suggestions'', JList suggestions),
                           (''competitors'', JList competitors), (''error'', JNull)]"
  using assms
  by (auto simp: run_pipeline_def split: sum.splits prod.splits)

lemma fill_missing_complete:
  "fill_missing (JDict [(''scores'', a), (''suggestions'', b), (''competitors'', c), (''error'', d)])
     = JDict [(''scores'', a), (''suggestions'', b), (''competitors'', c), (''error'', d)]"
  by (simp add: fill_missing_def)

lemma run_pipeline_process_raises:
  "process_file E file_path w = Inl e \<Longrightarrow> run_pipeline E file_path w = (Inl e, w)"
  by (simp add: run_pipeline_def)

lemma run_pipeline_enhancer_raises:
  "process_file E file_path w = Inr (processed_text, w1) \<Longrightarrow>
   scraper_agent E file_path w1 = (Inr competitors_json, w2) \<Longrightarrow>
   validator_agent E file_path w2 = (Inr validation_result, w3) \<Longrightarrow>
   enhance_idea E file_path w3 = (Inl e, w4) \<Longrightarrow>
   run_pipeline E file_path w = (Inl e, w4)"
  by (simp add: run_pipeline_def)

text \<open>
  C1, as stated: \<open>run_pipeline\<close> never propagates an exception. It does: an upload with an
  unsupported extension makes \<open>process_file\<close> raise, and a provider that answers with a blank
  message content makes \<open>enhance_idea\<close> raise (after the scraper and the validator have
  degraded to their error results); \<open>run_pipeline\<close> raises in both cases.
\<close>

theorem run_pipeline_raises_counterexample:
  "fst (run_pipeline offline_env ''idea.pdf'' raw_world) = Inl (ValueError ''Unsupported file format'')
   \<and> fst (run_pipeline blank_env ''idea.txt'' raw_world) = Inl (ValueError ''Empty response from API'')"
  by code_simp

text \<open>
  C1, amended. \<open>run_pipeline\<close> has no handler around its stage calls: an exception raised by
  \<open>process_file\<close>, or by \<open>enhance_idea\<close> after the earlier stages have returned, leaves
  \<open>run_pipeline\<close> as it is; and every result that \<open>run_pipeline\<close> returns has the four fields
  with \<open>error\<close> None. The boundary that catches is the caller, the endpoint of app.py: when
  \<open>run_pipeline\<close> raises, the endpoint returns the all-empty result with a populated error
  string, "Invalid JSON response: " or "Pipeline error: " followed by the message; when it
  returns, the endpoint returns its result. So no exception of a stage leaves the endpoint.
\<close>

theorem endpoint_catches_pipeline_exceptions:
  "(process_file E file_path w = Inl e \<longrightarrow> run_pipeline E file_path w = (Inl e, w))
   \<and> (process_file E file_path w = Inr (processed_text, w1)
        \<and> scraper_agent E file_path w1 = (Inr competitors_json, w2)
        \<and> validator_agent E file_path w2 = (Inr validation_result, w3)
        \<and> enhance_idea E file_path w3 = (Inl e, w4) \<longrightarrow>
      run_pipeline E file_path w = (Inl e, w4))
   \<and> (run_pipeline E file_path w = (Inr result, w') \<longrightarrow>
        (\<exists>scores suggestions competitors.
           result = JDict [(''scores'', JList scores), (''suggestions'', JList suggestions),
                           (''competitors'', JList competitors), (''error'', JNull)]))
   \<and> (run_pipeline E (''temp_'' @ filename) (v\<lparr>files := (files v)(''temp_'' @ filename \<mapsto> upload)\<rparr>)
          = (Inl e, v') \<longrightarrow>
        endpoint E filename upload v =
          (JDict [(''scores'', JList []), (''suggestions'', JList []), (''competitors'', JList []),
                  (''error'', JStr ((case e of JSONDecodeError m \<Rightarrow> ''Invalid JSON response: ''
                                       | _ \<Rightarrow> ''Pipeline error: '') @ str_exn e))], v'))
   \<and> (run_pipeline E (''temp_'' @ filename) (v\<lparr>files := (files v)(''temp_'' @ filename \<mapsto> upload)\<rparr>)
          = (Inr result, v') \<longrightarrow>
        endpoint E filename upload v = (result, v'))"
proof (intro conjI impI)
  assume "process_file E file_path w = Inl e"
  then show "run_pipeline E file_path w = (Inl e, w)" by (rule run_pipeline_process_raises)
next
  assume "process_file E file_path w = Inr (processed_text, w1)
        \<and> scraper_agent E file_path w1 = (Inr competitors_json, w2)
        \<and> validator_agent E file_path w2 = (Inr validation_result, w3)
        \<and> enhance_idea E file_path w3 = (Inl e, w4)"
  then show "run_pipeline E file_path w = (Inl e, w4)"
    using run_pipeline_enhancer_raises by blast
next
  assume "run_pipeline E file_path w = (Inr result, w')"
  then show "\<exists>scores suggestions competitors.
           result = JDict [(''scores'', JList scores), (''suggestions'', JList suggestions),
                           (''competitors'', JList competitors), (''error'', JNull)]"
    by (rule run_pipeline_result)
next
  assume "run_pipeline E (''temp_'' @ filename) (v\<lparr>files := (files v)(''temp_'' @ filename \<mapsto> upload)\<rparr>)
          = (Inl e, v')"
  then show "endpoint E filename upload v =
          (JDict [(''scores'', JList []), (''suggestions'', JList []), (''competitors'', JList []),
                  (''error'', JStr ((case e of JSONDecodeError m \<Rightarrow> ''Invalid JSON response: ''
                                       | _ \<Rightarrow> ''Pipeline error: '') @ str_exn e))], v')"
    by (cases e) (simp_all add: endpoint_def Let_def error_result_def)
next
  assume run: "run_pipeline E (''temp_'' @ filename) (v\<lparr>files := (files v)(''temp_'' @ filename \<mapsto> upload)\<rparr>)
          = (Inr result, v')"
  from run_pipeline_result [OF run] obtain scores suggestions competitors where
    "result = JDict [(''scores'', JList scores), (''suggestions'', JList suggestions),
                     (''competitors'', JList competitors), (''error'', JNull)]"
    by blast
  then have "fill_missing result = result" by (simp only: fill_missing_complete)
  with run show "endpoint E filename upload v = (result, v')"
    by (simp add: endpoint_def Let_def)
qed

lemma pdf_unsupported:
  "process_file E ''temp_idea.pdf'' w = Inl (ValueError ''Unsupported file format'')"
proof -
  have "\<not> suffix ''.txt'' ''temp_idea.pdf'' \<and> \<not> suffix ''.docx'' ''temp_idea.pdf''
      \<and> \<not> suffix ''.odt'' ''temp_idea.pdf''"
    by code_simp
  then show ?thesis by (simp add: process_file_def)
qed

theorem endpoint_catches_pipeline_exceptions_witness:
  "process_file offline_env ''temp_idea.pdf''
       (empty_world\<lparr>files := (files empty_world)(''temp_idea.pdf'' \<mapsto> TextFile ''my idea'')\<rparr>)
     = Inl (ValueError ''Unsupported file format'')
   \<and> endpoint offline_env ''idea.pdf'' (TextFile ''my idea'') empty_world =
       (JDict [(''scores'', JList []), (''suggestions'', JList []), (''competitors'', JList []),
               (''error'', JStr ''Pipeline error: Unsupported file format'')],
        empty_world\<lparr>files := (files empty_world)(''temp_idea.pdf'' \<mapsto> TextFile ''my idea'')\<rparr>)"
proof -
  let ?w = "empty_world\<lparr>files := (files empty_world)(''temp_idea.pdf'' \<mapsto> TextFile ''my idea'')\<rparr>"
  let ?e = "ValueError ''Unsupported file format''"
  have raises: "process_file offline_env ''temp_idea.pdf'' ?w = Inl ?e"
    by (rule pdf_unsupported)
  have name: "''temp_'' @ ''idea.pdf'' = ''temp_idea.pdf''" by simp
  from endpoint_catches_pipeline_exceptions [of offline_env "''temp_idea.pdf''" ?w ?e] raises
  have run: "run_pipeline offline_env ''temp_idea.pdf'' ?w = (Inl ?e, ?w)"
    by blast
  from endpoint_catches_pipeline_exceptions [of offline_env _ _ ?e _ _ _ _ _ _ _ _ _
      "''idea.pdf''" empty_world "TextFile ''my idea''" ?w] run
  have "endpoint offline_env ''idea.pdf'' (TextFile ''my idea'') empty_world =
          (JDict [(''scores'', JList []), (''suggestions'', JList []), (''competitors'', JList []),
                  (''error'', JStr ((case ?e of JSONDecodeError m \<Rightarrow> ''Invalid JSON response: ''
                                       | _ \<Rightarrow> ''Pipeline error: '') @ str_exn ?e))], ?w)"
    unfolding name by blast
  with raises show ?thesis by simp
qed

end
